theory Spec2Isabelle
  imports Complex_Main
begin

section \<open>The point-wise factorization machine of FMRecommender.py\<close>

text \<open>
  The theory embeds the class \<^verbatim>\<open>PointFM\<close> of
  \<^verbatim>\<open>voice_rec_sys/Recommender/FMRecommender.py\<close>: its constructor, \<^verbatim>\<open>forward\<close>,
  \<^verbatim>\<open>fit\<close> and \<^verbatim>\<open>predict\<close>.

  Conventions of the embedding.
  \<^item> The entries of parameter tensors and of scores are real numbers: rounding and
    overflow of 32-bit floats are not modelled. The IEEE special values are kept where
    the source inspects them: labels, losses and the loss accumulators of \<^verbatim>\<open>fit\<close> are
    values of the type \<open>fscalar\<close> below.
  \<^item> A tensor carries the device it lives on and its gradient-tracking flag beside its
    entries. Index batches are one-dimensional tensors of Python integers.
  \<^item> A tensor of shape \<open>(n, factors)\<close> is the list of its \<open>n\<close> rows; a tensor of shape
    \<open>(n, 1)\<close> (a bias lookup, a sum with \<^verbatim>\<open>keepdim=True\<close>) is the list of its \<open>n\<close>
    entries, so that \<^verbatim>\<open>view(-1)\<close> keeps the list as it is.
  \<^item> Every exception of the source and of the torch calls it makes is a value of the
    type \<open>error\<close>; a call that may raise returns \<open>error + 'a\<close>.
\<close>

subsection \<open>Errors, devices, tensors\<close>

datatype error =
    ValueError string
  | IndexError
  | TypeError
  | AttributeError
  | RuntimeError
  | CudaError

datatype device = CPU | GPU

record 'a tensor =
  data :: "'a list"
  dev :: device
  requires_grad :: bool

text \<open>
  The process state the source reads through torch: whether a GPU is usable
  (\<^verbatim>\<open>torch.cuda.is_available()\<close>) and whether gradient mode is on (it is, unless a caller
  wraps the call in \<^verbatim>\<open>torch.no_grad()\<close>).
\<close>

record env =
  cuda_available :: bool
  grad_enabled :: bool

definition ebind :: "error + 'a \<Rightarrow> ('a \<Rightarrow> error + 'b) \<Rightarrow> error + 'b" where
  "ebind r f = (case r of Inl e \<Rightarrow> Inl e | Inr v \<Rightarrow> f v)"

text \<open>Reading an attribute that the constructor did not create raises AttributeError.\<close>

definition attr :: "'a option \<Rightarrow> error + 'a" where
  "attr a = (case a of None \<Rightarrow> Inl AttributeError | Some v \<Rightarrow> Inr v)"

subsection \<open>The torch operations that forward uses\<close>

text \<open>
  \<^verbatim>\<open>nn.Embedding.__call__\<close>: the index tensor must live on the device of the table and
  every index must be a row of the table (torch does not wrap negative indices here).
  On a GPU an index out of range surfaces as a CUDA error; the model reports it as
  IndexError on either device.
\<close>

definition nn_Embedding :: "device \<Rightarrow> 'w list \<Rightarrow> int tensor \<Rightarrow> error + 'w list" where
  "nn_Embedding d W t =
     (if dev t \<noteq> d then Inl RuntimeError
      else if \<forall>k \<in> set (data t). 0 \<le> k \<and> k < int (length W)
           then Inr (map (\<lambda>k. W ! nat k) (data t))
      else Inl IndexError)"

text \<open>The same call on an optional argument: \<^verbatim>\<open>None\<close> is not a tensor.\<close>

definition nn_Embedding_opt :: "device \<Rightarrow> 'w list \<Rightarrow> int tensor option \<Rightarrow> error + 'w list" where
  "nn_Embedding_opt d W x =
     (case x of None \<Rightarrow> Inl TypeError | Some t \<Rightarrow> nn_Embedding d W t)"

text \<open>
  Broadcasting of a binary operation over the batch dimension: equal sizes go
  entrywise, a size of one is repeated, anything else raises.
\<close>

definition bcast2 :: "('a \<Rightarrow> 'b \<Rightarrow> 'c) \<Rightarrow> 'a list \<Rightarrow> 'b list \<Rightarrow> error + 'c list" where
  "bcast2 f xs ys =
     (if length xs = length ys then Inr (map2 f xs ys)
      else if length xs = 1 then Inr (map (f (hd xs)) ys)
      else if length ys = 1 then Inr (map (\<lambda>x. f x (hd ys)) xs)
      else Inl RuntimeError)"

text \<open>
  The in-place \<^verbatim>\<open>pred += rhs\<close>: the right-hand side is broadcast to the shape of
  \<^verbatim>\<open>pred\<close>, which cannot grow.
\<close>

definition iadd :: "real list \<Rightarrow> real list \<Rightarrow> error + real list" where
  "iadd pred rhs =
     (if length rhs = length pred then Inr (map2 (+) pred rhs)
      else if length rhs = 1 then Inr (map (\<lambda>p. p + hd rhs) pred)
      else Inl RuntimeError)"

definition dot :: "real list \<Rightarrow> real list \<Rightarrow> real" where
  "dot xs ys = sum_list (map2 (*) xs ys)"

text \<open>\<^verbatim>\<open>(a * b).sum(dim=-1, keepdim=True)\<close> on two tensors of rows.\<close>

definition mul_sum :: "real list list \<Rightarrow> real list list \<Rightarrow> error + real list" where
  "mul_sum a b = bcast2 dot a b"

definition view_flat :: "real list \<Rightarrow> real list" where
  "view_flat col = col"

subsection \<open>The model object\<close>

text \<open>
  The attributes that \<^verbatim>\<open>__init__\<close> sets. A table \<^verbatim>\<open>nn.Embedding(n, factors)\<close> is the
  list of its rows, a table \<^verbatim>\<open>nn.Embedding(n, 1)\<close> the list of its entries. The
  side-feature tables exist only in the feature modes that create them. The field
  \<open>bias'\<close> is the attribute \<^verbatim>\<open>bias_\<close>, a name that record syntax does not take.
\<close>

record pointfm =
  epochs :: int
  lr :: real
  reg_1 :: real
  reg_2 :: real
  feature :: int
  embed_user :: "real list list"
  embed_item :: "real list list"
  u_bias :: "real list"
  i_bias :: "real list"
  embed_gender :: "real list list option"
  g_bias :: "real list option"
  embed_age :: "real list list option"
  a_bias :: "real list option"
  bias' :: real
  loss_type :: string
  optimizer :: string
  early_stop :: bool
  device :: device
  training :: bool

text \<open>
  \<^verbatim>\<open>nn.init.normal_\<close> fills a table with draws of the generator: \<open>rng\<close> lists the
  draws that go into the tables and \<open>off\<close> is where the stretch of a table starts.
\<close>

definition normal_init :: "(nat \<Rightarrow> real) \<Rightarrow> nat \<Rightarrow> nat \<Rightarrow> nat \<Rightarrow> real list list" where
  "normal_init rng off rows cols =
     map (\<lambda>r. map (\<lambda>c. rng (off + r * cols + c)) [0..<cols]) [0..<rows]"

definition constant_init :: "nat \<Rightarrow> real \<Rightarrow> real list" where
  "constant_init rows c = replicate rows c"

text \<open>
  \<^verbatim>\<open>PointFM.__init__\<close>. The arguments \<^verbatim>\<open>initializer\<close> and \<^verbatim>\<open>gpuid\<close> are not stored
  on the object (the latter goes to the process environment) and are left out. A new
  module lives on the CPU in training mode.
\<close>

definition PointFM ::
  "(nat \<Rightarrow> real) \<Rightarrow> nat \<Rightarrow> nat \<Rightarrow> nat \<Rightarrow> int \<Rightarrow> real \<Rightarrow> real \<Rightarrow> real \<Rightarrow> string \<Rightarrow> string
     \<Rightarrow> int \<Rightarrow> bool \<Rightarrow> pointfm" where
  "PointFM rng user_num item_num factors epochs' lr' reg_1' reg_2' loss_type' optimizer'
      feature' early_stop' =
     (let o1 = user_num * factors;
          o2 = o1 + item_num * factors;
          o3 = o2 + 2 * factors
      in \<lparr> epochs = epochs', lr = lr', reg_1 = reg_1', reg_2 = reg_2', feature = feature',
           embed_user = normal_init rng 0 user_num factors,
           embed_item = normal_init rng o1 item_num factors,
           u_bias = constant_init user_num 0,
           i_bias = constant_init item_num 0,
           embed_gender =
             (if feature' = 0 \<or> feature' = 2 then Some (normal_init rng o2 2 factors)
              else None),
           g_bias =
             (if feature' = 0 \<or> feature' = 2 then Some (constant_init 2 0) else None),
           embed_age =
             (if feature' = 1 then Some (normal_init rng o2 3 factors)
              else if feature' = 2 then Some (normal_init rng o3 3 factors)
              else None),
           a_bias =
             (if feature' = 1 \<or> feature' = 2 then Some (constant_init 3 0) else None),
           bias' = 0,
           loss_type = loss_type', optimizer = optimizer', early_stop = early_stop',
           device = CPU, training = True \<rparr>)"

text \<open>
  What the constructor establishes and parameter updates keep: every row of every
  embedding table has the same width, a bias table has as many entries as its
  embedding table, and the side-feature tables are there exactly in the modes that
  use them, with 2 gender rows and 3 age rows.
\<close>

definition wf_table :: "nat \<Rightarrow> nat \<Rightarrow> real list list \<Rightarrow> bool" where
  "wf_table rows cols W = (length W = rows \<and> list_all (\<lambda>r. length r = cols) W)"

definition wf_side :: "bool \<Rightarrow> nat \<Rightarrow> nat \<Rightarrow> real list list option \<Rightarrow> real list option \<Rightarrow> bool" where
  "wf_side active rows cols W B =
     (if active
      then (case W of None \<Rightarrow> False | Some W' \<Rightarrow> wf_table rows cols W') \<and>
           (case B of None \<Rightarrow> False | Some B' \<Rightarrow> length B' = rows)
      else W = None \<and> B = None)"

definition wf_model :: "nat \<Rightarrow> pointfm \<Rightarrow> bool" where
  "wf_model factors m =
     (wf_table (length (u_bias m)) factors (embed_user m) \<and>
      wf_table (length (i_bias m)) factors (embed_item m) \<and>
      wf_side (feature m = 0 \<or> feature m = 2) 2 factors (embed_gender m) (g_bias m) \<and>
      wf_side (feature m = 1 \<or> feature m = 2) 3 factors (embed_age m) (a_bias m))"

subsection \<open>forward\<close>

text \<open>
  The side-feature part of \<^verbatim>\<open>forward\<close> for one table: the two cross terms with the
  user and item rows are added to \<^verbatim>\<open>pred\<close> in place.
\<close>

definition add_cross ::
  "real list list \<Rightarrow> real list list \<Rightarrow> real list list \<Rightarrow> real list \<Rightarrow> error + real list" where
  "add_cross e eu ei pred =
     ebind (mul_sum e eu) (\<lambda>a.
     ebind (mul_sum e ei) (\<lambda>b.
     ebind (bcast2 (+) a b) (\<lambda>s.
     iadd pred s)))"

definition forward ::
  "env \<Rightarrow> pointfm \<Rightarrow> int tensor \<Rightarrow> int tensor \<Rightarrow> int tensor option \<Rightarrow> int tensor option
     \<Rightarrow> error + real tensor" where
  "forward ev m user item gender age =
     ebind (nn_Embedding (device m) (embed_user m) user) (\<lambda>eu.
     ebind (nn_Embedding (device m) (embed_item m) item) (\<lambda>ei.
     ebind (mul_sum eu ei) (\<lambda>pred.
     ebind (nn_Embedding (device m) (u_bias m) user) (\<lambda>ub.
     ebind (nn_Embedding (device m) (i_bias m) item) (\<lambda>ib.
     ebind (bcast2 (+) ub ib) (\<lambda>bs.
     ebind (iadd pred (map (\<lambda>x. x + bias' m) bs)) (\<lambda>pred.
     ebind
       (if feature m = 0 then
          ebind (attr (embed_gender m)) (\<lambda>G.
          ebind (nn_Embedding_opt (device m) G gender) (\<lambda>eg.
          ebind (add_cross eg eu ei pred) (\<lambda>pred.
          ebind (attr (g_bias m)) (\<lambda>GB.
          ebind (nn_Embedding_opt (device m) GB gender) (\<lambda>gb.
          iadd pred gb)))))
        else if feature m = 1 then
          ebind (attr (embed_age m)) (\<lambda>A.
          ebind (nn_Embedding_opt (device m) A age) (\<lambda>ea.
          ebind (add_cross ea eu ei pred) (\<lambda>pred.
          ebind (attr (a_bias m)) (\<lambda>AB.
          ebind (nn_Embedding_opt (device m) AB age) (\<lambda>ab.
          iadd pred ab)))))
        else if feature m = 2 then
          ebind (attr (embed_gender m)) (\<lambda>G.
          ebind (nn_Embedding_opt (device m) G gender) (\<lambda>eg.
          ebind (attr (embed_age m)) (\<lambda>A.
          ebind (nn_Embedding_opt (device m) A age) (\<lambda>ea.
          ebind (add_cross eg eu ei pred) (\<lambda>pred.
          ebind (add_cross ea eu ei pred) (\<lambda>pred.
          ebind (mul_sum ea eg) (\<lambda>ag.
          ebind (iadd pred ag) (\<lambda>pred.
          ebind (attr (g_bias m)) (\<lambda>GB.
          ebind (nn_Embedding_opt (device m) GB gender) (\<lambda>gb.
          ebind (attr (a_bias m)) (\<lambda>AB.
          ebind (nn_Embedding_opt (device m) AB age) (\<lambda>ab.
          ebind (bcast2 (+) gb ab) (\<lambda>s.
          iadd pred s)))))))))))))
        else Inr pred) (\<lambda>pred.
     Inr \<lparr> data = view_flat pred, dev = device m, requires_grad = grad_enabled ev \<rparr>))))))))"

subsection \<open>predict\<close>

text \<open>\<^verbatim>\<open>Tensor.cpu()\<close> changes the device of a tensor and nothing else.\<close>

definition cpu :: "'a tensor \<Rightarrow> 'a tensor" where
  "cpu t = t\<lparr>dev := CPU\<rparr>"

definition predict ::
  "env \<Rightarrow> pointfm \<Rightarrow> int tensor \<Rightarrow> int tensor \<Rightarrow> int tensor option \<Rightarrow> int tensor option
     \<Rightarrow> error + real tensor" where
  "predict ev m u i g a =
     (if feature m = 0 then ebind (forward ev m u i g None) (\<lambda>pred. Inr (cpu pred))
      else if feature m = 1 then ebind (forward ev m u i None a) (\<lambda>pred. Inr (cpu pred))
      else if feature m = 2 then ebind (forward ev m u i g a) (\<lambda>pred. Inr (cpu pred))
      else ebind (forward ev m u i None None) (\<lambda>pred. Inr (cpu pred)))"

subsection \<open>Float scalars with the IEEE special values\<close>

text \<open>
  Labels come from the data loader and may hold any float; the loss computed from
  them is the value that \<^verbatim>\<open>torch.isnan\<close> inspects. The operations follow the IEEE rules
  for infinities and NaN; on finite values they are exact.
\<close>

datatype fscalar = Finite real | PosInf | NegInf | NaN

fun fneg :: "fscalar \<Rightarrow> fscalar" where
  "fneg (Finite a) = Finite (- a)"
| "fneg PosInf = NegInf"
| "fneg NegInf = PosInf"
| "fneg NaN = NaN"

fun fadd :: "fscalar \<Rightarrow> fscalar \<Rightarrow> fscalar" where
  "fadd (Finite a) (Finite b) = Finite (a + b)"
| "fadd NaN y = NaN"
| "fadd x NaN = NaN"
| "fadd PosInf NegInf = NaN"
| "fadd NegInf PosInf = NaN"
| "fadd PosInf y = PosInf"
| "fadd x PosInf = PosInf"
| "fadd NegInf y = NegInf"
| "fadd x NegInf = NegInf"

definition fsub :: "fscalar \<Rightarrow> fscalar \<Rightarrow> fscalar" where
  "fsub x y = fadd x (fneg y)"

fun fmul :: "fscalar \<Rightarrow> fscalar \<Rightarrow> fscalar" where
  "fmul (Finite a) (Finite b) = Finite (a * b)"
| "fmul NaN y = NaN"
| "fmul x NaN = NaN"
| "fmul (Finite a) PosInf = (if a = 0 then NaN else if 0 < a then PosInf else NegInf)"
| "fmul (Finite a) NegInf = (if a = 0 then NaN else if 0 < a then NegInf else PosInf)"
| "fmul PosInf (Finite b) = (if b = 0 then NaN else if 0 < b then PosInf else NegInf)"
| "fmul NegInf (Finite b) = (if b = 0 then NaN else if 0 < b then NegInf else PosInf)"
| "fmul PosInf PosInf = PosInf"
| "fmul PosInf NegInf = NegInf"
| "fmul NegInf PosInf = NegInf"
| "fmul NegInf NegInf = PosInf"

fun fabs :: "fscalar \<Rightarrow> fscalar" where
  "fabs (Finite a) = Finite \<bar>a\<bar>"
| "fabs NaN = NaN"
| "fabs x = PosInf"

text \<open>The comparison \<^verbatim>\<open><\<close> of floats: false whenever a NaN takes part.\<close>

fun flt :: "fscalar \<Rightarrow> fscalar \<Rightarrow> bool" where
  "flt (Finite a) (Finite b) = (a < b)"
| "flt NaN y = False"
| "flt x NaN = False"
| "flt x NegInf = False"
| "flt NegInf y = True"
| "flt PosInf y = False"
| "flt x PosInf = True"

definition isnan :: "fscalar \<Rightarrow> bool" where
  "isnan x = (x = NaN)"

definition fsum :: "fscalar list \<Rightarrow> fscalar" where
  "fsum xs = foldl fadd (Finite 0) xs"

subsection \<open>The torch operations that fit uses\<close>

text \<open>
  \<^verbatim>\<open>Tensor.cuda()\<close> raises when the process has no usable GPU; on \<^verbatim>\<open>None\<close> the
  attribute does not exist.
\<close>

definition cuda :: "env \<Rightarrow> 'a tensor \<Rightarrow> error + 'a tensor" where
  "cuda ev t = (if cuda_available ev then Inr (t\<lparr>dev := GPU\<rparr>) else Inl CudaError)"

definition cuda_opt :: "env \<Rightarrow> 'a tensor option \<Rightarrow> error + 'a tensor option" where
  "cuda_opt ev x =
     (case x of None \<Rightarrow> Inl AttributeError
      | Some t \<Rightarrow> ebind (cuda ev t) (\<lambda>t'. Inr (Some t')))"

text \<open>\<^verbatim>\<open>Module.cuda()\<close> and \<^verbatim>\<open>Module.cpu()\<close> place the parameters.\<close>

definition module_cuda :: "pointfm \<Rightarrow> pointfm" where
  "module_cuda m = m\<lparr>device := GPU\<rparr>"

definition module_cpu :: "pointfm \<Rightarrow> pointfm" where
  "module_cpu m = m\<lparr>device := CPU\<rparr>"

type_synonym criterion = "real tensor \<Rightarrow> fscalar tensor \<Rightarrow> error + fscalar"

text \<open>
  \<^verbatim>\<open>nn.MSELoss(reduction='sum')\<close>: prediction and target are broadcast against each
  other and the squared differences are summed.
\<close>

definition MSELoss_sum :: criterion where
  "MSELoss_sum input target =
     ebind (bcast2 (\<lambda>x y. let d = fsub (Finite x) y in fmul d d) (data input) (data target))
       (\<lambda>sq. if dev input \<noteq> dev target then Inl RuntimeError else Inr (fsum sq))"

text \<open>
  \<^verbatim>\<open>nn.BCEWithLogitsLoss(reduction='sum')\<close>: the target must have the size of the
  input; each entry contributes \<open>(1 - y) * x + log (1 + exp (- x))\<close>.
\<close>

definition BCEWithLogitsLoss_sum :: criterion where
  "BCEWithLogitsLoss_sum input target =
     (if length (data target) \<noteq> length (data input)
      then Inl (ValueError ''Target size must be the same as input size'')
      else if dev input \<noteq> dev target then Inl RuntimeError
      else Inr (fsum (map2 (\<lambda>x y. fadd (fmul (fsub (Finite 1) y) (Finite x))
                                        (Finite (ln (1 + exp (- x)))))
                       (data input) (data target))))"

text \<open>
  \<^verbatim>\<open>weight.norm(p=1)\<close> and \<^verbatim>\<open>weight.norm()\<close> of a table: the sum of the absolute
  values of all entries, and the square root of the sum of their squares.
\<close>

definition norm1 :: "real list list \<Rightarrow> real" where
  "norm1 W = sum_list (map (\<lambda>r. sum_list (map abs r)) W)"

definition norm2 :: "real list list \<Rightarrow> real" where
  "norm2 W = sqrt (sum_list (map (\<lambda>r. sum_list (map (\<lambda>x. x * x) r)) W))"

subsection \<open>fit\<close>

type_synonym batch =
  "int tensor \<times> int tensor \<times> int tensor option \<times> int tensor option \<times> fscalar tensor"

text \<open>
  The loss of one batch: the prediction with the side features of the mode, the
  criterion, and the penalties on the full tables.
\<close>

definition batch_loss ::
  "env \<Rightarrow> criterion \<Rightarrow> pointfm \<Rightarrow> int tensor \<Rightarrow> int tensor \<Rightarrow> int tensor option
     \<Rightarrow> int tensor option \<Rightarrow> fscalar tensor \<Rightarrow> error + fscalar" where
  "batch_loss ev criterion m user item gender age label =
     ebind
       (if feature m = 0 then forward ev m user item gender None
        else if feature m = 1 then forward ev m user item None age
        else if feature m = 2 then forward ev m user item gender age
        else forward ev m user item None None) (\<lambda>prediction.
     ebind (criterion prediction label) (\<lambda>loss.
     let loss = fadd loss (Finite (reg_1 m * (norm1 (embed_item m) + norm1 (embed_user m))));
         loss = fadd loss (Finite (reg_2 m * (norm2 (embed_item m) + norm2 (embed_user m))))
     in if feature m = 0 then
          ebind (attr (embed_gender m)) (\<lambda>G.
          Inr (fadd (fadd loss (Finite (reg_1 m * norm1 G))) (Finite (reg_2 m * norm2 G))))
        else if feature m = 1 then
          ebind (attr (embed_age m)) (\<lambda>A.
          Inr (fadd (fadd loss (Finite (reg_1 m * norm1 A))) (Finite (reg_2 m * norm2 A))))
        else if feature m = 2 then
          ebind (attr (embed_gender m)) (\<lambda>G.
          ebind (attr (embed_age m)) (\<lambda>A.
          Inr (fadd (fadd loss (Finite (reg_1 m * (norm1 G + norm1 A))))
                    (Finite (reg_2 m * (norm2 G + norm2 A))))))
        else Inr loss))"

text \<open>
  \<^verbatim>\<open>loss.backward(); optimizer.step()\<close> is torch's automatic differentiation and its
  SGD: a parameter \<open>opt_step\<close> of the model, of which only the parameter tensors are
  taken. Every other attribute of the object stays as it is.
\<close>

type_synonym optimizer_step = "pointfm \<Rightarrow> batch \<Rightarrow> pointfm"

definition load_parameters :: "pointfm \<Rightarrow> pointfm \<Rightarrow> pointfm" where
  "load_parameters m m' =
     m\<lparr> embed_user := embed_user m', embed_item := embed_item m',
        u_bias := u_bias m', i_bias := i_bias m',
        embed_gender := embed_gender m', g_bias := g_bias m',
        embed_age := embed_age m', a_bias := a_bias m',
        bias' := bias' m' \<rparr>"

text \<open>
  The body of the batch loop. It returns the updated object and \<^verbatim>\<open>loss.item()\<close>.
  \<^verbatim>\<open>loss.backward()\<close> raises when the loss does not track gradients.
\<close>

definition train_batch ::
  "env \<Rightarrow> optimizer_step \<Rightarrow> criterion \<Rightarrow> pointfm \<Rightarrow> batch \<Rightarrow> error + pointfm \<times> fscalar" where
  "train_batch ev opt_step criterion m b =
     (case b of (user, item, gender, age, label) \<Rightarrow>
        ebind (cuda ev user) (\<lambda>user.
        ebind (cuda ev item) (\<lambda>item.
        ebind (cuda ev label) (\<lambda>label.
        ebind
          (if feature m = 0 then ebind (cuda_opt ev gender) (\<lambda>g. Inr (g, age))
           else if feature m = 1 then ebind (cuda_opt ev age) (\<lambda>a. Inr (gender, a))
           else if feature m = 2 then
             ebind (cuda_opt ev gender) (\<lambda>g.
             ebind (cuda_opt ev age) (\<lambda>a. Inr (g, a)))
           else Inr (gender, age)) (\<lambda>(gender, age).
        ebind (batch_loss ev criterion m user item gender age label) (\<lambda>loss.
        if isnan loss
        then Inl (ValueError
               ''Loss=Nan or Infinity: current settings does not fit the recommender'')
        else if \<not> grad_enabled ev then Inl RuntimeError
        else Inr (load_parameters m (opt_step m (user, item, gender, age, label)),
                  loss)))))))"

text \<open>
  What a run of \<^verbatim>\<open>fit\<close> does that can be observed from outside: a batch drawn from the
  loader, an optimizer step taken with a loss, an epoch finished with its total, and
  the message printed by the early stop.
\<close>

datatype event = Next | Step fscalar | Epoch fscalar | EarlyStop

fun epoch_totals :: "event list \<Rightarrow> fscalar list" where
  "epoch_totals [] = []"
| "epoch_totals (Epoch c # es) = c # epoch_totals es"
| "epoch_totals (e # es) = epoch_totals es"

text \<open>
  The batch loop of one epoch over the batches the loader yields, from the
  accumulator \<open>current_loss\<close>. An exception leaves the object as the last completed
  batch left it. The progress bar around the loader only displays and is left out.
\<close>

fun batch_loop ::
  "env \<Rightarrow> optimizer_step \<Rightarrow> criterion \<Rightarrow> pointfm \<Rightarrow> fscalar \<Rightarrow> batch list
     \<Rightarrow> error option \<times> pointfm \<times> fscalar \<times> event list" where
  "batch_loop ev opt_step criterion m current_loss [] = (None, m, current_loss, [])"
| "batch_loop ev opt_step criterion m current_loss (b # bs) =
     (case train_batch ev opt_step criterion m b of
        Inl e \<Rightarrow> (Some e, m, current_loss, [Next])
      | Inr (m', loss) \<Rightarrow>
          (case batch_loop ev opt_step criterion m' (fadd current_loss loss) bs of
             (r, m'', current_loss', evs) \<Rightarrow>
               (r, m'', current_loss', Next # Step loss # evs)))"

record fit_result =
  raised :: "error option"
  self :: pointfm
  events :: "event list"

definition prepend_events :: "event list \<Rightarrow> fit_result \<Rightarrow> fit_result" where
  "prepend_events evs r = r\<lparr>events := evs @ events r\<rparr>"

text \<open>
  The epoch loop, \<^verbatim>\<open>for epoch in range(1, self.epochs + 1)\<close>, by the number of epochs
  still to run. The loader is iterated anew in every epoch and yields the same
  batches.
\<close>

fun epoch_loop ::
  "env \<Rightarrow> optimizer_step \<Rightarrow> criterion \<Rightarrow> batch list \<Rightarrow> nat \<Rightarrow> pointfm \<Rightarrow> fscalar
     \<Rightarrow> fit_result" where
  "epoch_loop ev opt_step criterion train_loader 0 m last_loss =
     \<lparr> raised = None, self = m, events = [] \<rparr>"
| "epoch_loop ev opt_step criterion train_loader (Suc n) m last_loss =
     (case batch_loop ev opt_step criterion (m\<lparr>training := True\<rparr>) (Finite 0) train_loader of
        (Some e, m', current_loss, evs) \<Rightarrow> \<lparr> raised = Some e, self = m', events = evs \<rparr>
      | (None, m', current_loss, evs) \<Rightarrow>
          (let m'' = m'\<lparr>training := False\<rparr>;
               delta_loss = fsub current_loss last_loss
           in if flt (fabs delta_loss) (Finite (1 / 100000)) \<and> early_stop m''
              then \<lparr> raised = None, self = m'', events = evs @ [Epoch current_loss, EarlyStop] \<rparr>
              else prepend_events (evs @ [Epoch current_loss])
                     (epoch_loop ev opt_step criterion train_loader n m'' current_loss)))"

text \<open>
  The test that ends the epoch loop, read for epoch \<open>k\<close> off the totals \<open>hs\<close> of
  the epochs of a run that started from the previous loss \<open>l0\<close>: the total of epoch
  \<open>k\<close> against the total before it.
\<close>

definition stop_at :: "bool \<Rightarrow> fscalar \<Rightarrow> fscalar list \<Rightarrow> nat \<Rightarrow> bool" where
  "stop_at es l0 hs k =
     (es \<and> flt (fabs (fsub (hs ! k) ((l0 # hs) ! k))) (Finite (1 / 100000)))"

text \<open>
  The head of \<^verbatim>\<open>fit\<close>: the module goes to the GPU when there is one and to the CPU
  otherwise, and the criterion is chosen from \<^verbatim>\<open>loss_type\<close>.
\<close>

definition to_device :: "env \<Rightarrow> pointfm \<Rightarrow> pointfm" where
  "to_device ev m = (if cuda_available ev then module_cuda m else module_cpu m)"

definition select_criterion :: "string \<Rightarrow> error + criterion" where
  "select_criterion lt =
     (if lt = ''CL'' then Inr BCEWithLogitsLoss_sum
      else if lt = ''SL'' then Inr MSELoss_sum
      else Inl (ValueError (''Invalid loss type: '' @ lt)))"

text \<open>
  \<^verbatim>\<open>PointFM.fit\<close>. Between the two steps of its head the constructor of
  \<^verbatim>\<open>optim.SGD\<close> rejects a negative learning rate. The previous epoch's loss
  \<^verbatim>\<open>last_loss\<close> starts at \<open>0\<close>.
\<close>

definition fit :: "env \<Rightarrow> optimizer_step \<Rightarrow> pointfm \<Rightarrow> batch list \<Rightarrow> fit_result" where
  "fit ev opt_step m0 train_loader =
     (let m = to_device ev m0
      in if lr m < 0
         then \<lparr> raised = Some (ValueError ''Invalid learning rate''), self = m, events = [] \<rparr>
         else (case select_criterion (loss_type m) of
                 Inl e \<Rightarrow> \<lparr> raised = Some e, self = m, events = [] \<rparr>
               | Inr criterion \<Rightarrow>
                   epoch_loop ev opt_step criterion train_loader (nat (epochs m)) m
                     (Finite 0)))"

subsection \<open>Concrete objects\<close>

text \<open>
  A generator whose \<open>k\<close>-th draw is \<open>k\<close>, the gradient-tracking process with and
  without a GPU, plain tensors on a device, and an optimizer step that leaves the
  parameters where they are.
\<close>

definition rng0 :: "nat \<Rightarrow> real" where
  "rng0 k = real k"

definition env_gpu :: env where
  "env_gpu = \<lparr> cuda_available = True, grad_enabled = True \<rparr>"

definition env_cpu :: env where
  "env_cpu = \<lparr> cuda_available = False, grad_enabled = True \<rparr>"

definition tns :: "device \<Rightarrow> 'a list \<Rightarrow> 'a tensor" where
  "tns d xs = \<lparr> data = xs, dev = d, requires_grad = False \<rparr>"

definition sgd_idle :: optimizer_step where
  "sgd_idle m b = m"

text \<open>One user, one item, one factor, both side features.\<close>

definition fm_both :: pointfm where
  "fm_both = PointFM rng0 1 1 1 20 (1 / 1000) (1 / 1000) (1 / 1000) ''CL'' ''sgd'' 2 True"

text \<open>The same sizes with the gender tables only, and with the age tables only.\<close>

definition fm_gender :: pointfm where
  "fm_gender = PointFM rng0 1 1 1 20 (1 / 1000) (1 / 1000) (1 / 1000) ''CL'' ''sgd'' 0 True"

definition fm_age :: pointfm where
  "fm_age = PointFM rng0 1 1 1 20 (1 / 1000) (1 / 1000) (1 / 1000) ''CL'' ''sgd'' 1 True"

text \<open>
  The same sizes with no side feature (\<open>feature = 3\<close>), squared loss and three
  epochs; then without penalties, and with a loss type that does not exist.
\<close>

definition fm_plain :: pointfm where
  "fm_plain = PointFM rng0 1 1 1 3 (1 / 1000) (1 / 1000) (1 / 1000) ''SL'' ''sgd'' 3 True"

definition fm_noreg :: pointfm where
  "fm_noreg = PointFM rng0 1 1 1 3 (1 / 1000) 0 0 ''SL'' ''sgd'' 3 True"

definition fm_xyz :: pointfm where
  "fm_xyz = PointFM rng0 1 1 1 3 (1 / 1000) (1 / 1000) (1 / 1000) ''XYZ'' ''sgd'' 3 True"

text \<open>One-example batches as the loader hands them over, with label \<open>0\<close> and \<open>+inf\<close>.\<close>

definition batch_zero :: batch where
  "batch_zero = (tns CPU [0], tns CPU [0], None, None, tns CPU [Finite 0])"

definition batch_inf :: batch where
  "batch_inf = (tns CPU [0], tns CPU [0], None, None, tns CPU [PosInf])"

section \<open>Properties\<close>

subsection \<open>Auxiliary facts\<close>

lemma ebind_Inr [simp]: "ebind (Inr v) f = f v"
  by (simp add: ebind_def)

lemma ebind_Inl [simp]: "ebind (Inl e) f = Inl e"
  by (simp add: ebind_def)

lemma nn_Embedding_ok:
  "dev t = d \<Longrightarrow> \<forall>k \<in> set (data t). 0 \<le> k \<and> k < int (length W) \<Longrightarrow>
   nn_Embedding d W t = Inr (map (\<lambda>k. W ! nat k) (data t))"
  by (simp add: nn_Embedding_def)

lemma bcast2_same: "length xs = length ys \<Longrightarrow> bcast2 f xs ys = Inr (map2 f xs ys)"
  by (simp add: bcast2_def)

lemma iadd_same: "length rhs = length pred \<Longrightarrow> iadd pred rhs = Inr (map2 (+) pred rhs)"
  by (simp add: iadd_def)

lemma add_cross_same:
  "length e = length pred \<Longrightarrow> length eu = length pred \<Longrightarrow> length ei = length pred \<Longrightarrow>
   add_cross e eu ei pred = Inr (map2 (+) pred (map2 (+) (map2 dot e eu) (map2 dot e ei)))"
  by (simp add: add_cross_def mul_sum_def bcast2_same iadd_same)

lemma wf_model_both:
  assumes "wf_model F m" and "feature m = 2"
  obtains G GB A AB where
    "embed_gender m = Some G" "length G = 2" "g_bias m = Some GB" "length GB = 2"
    "embed_age m = Some A" "length A = 3" "a_bias m = Some AB" "length AB = 3"
    "length (u_bias m) = length (embed_user m)" "length (i_bias m) = length (embed_item m)"
  using assms
  by (auto simp: wf_model_def wf_side_def wf_table_def split: option.splits)

lemma forward_feature2:
  assumes f2: "feature m = 2" and wf: "wf_model F m"
    and du: "dev user = device m" and di: "dev item = device m"
    and dg: "dev gender = device m" and da: "dev age = device m"
    and li: "length (data item) = length (data user)"
    and lg: "length (data gender) = length (data user)"
    and la: "length (data age) = length (data user)"
    and ru: "\<forall>k \<in> set (data user). 0 \<le> k \<and> k < int (length (embed_user m))"
    and ri: "\<forall>k \<in> set (data item). 0 \<le> k \<and> k < int (length (embed_item m))"
    and rg: "\<forall>k \<in> set (data gender). 0 \<le> k \<and> k < 2"
    and ra: "\<forall>k \<in> set (data age). 0 \<le> k \<and> k < 3"
  shows "forward ev m user item (Some gender) (Some age) =
     Inr \<lparr> data = map (\<lambda>n.
              let u = nat (data user ! n); i = nat (data item ! n);
                  g = nat (data gender ! n); a = nat (data age ! n);
                  eu = embed_user m ! u; ei = embed_item m ! i;
                  eg = the (embed_gender m) ! g; ea = the (embed_age m) ! a
              in dot eu ei + u_bias m ! u + i_bias m ! i + bias' m
                 + (dot eg eu + dot eg ei + dot ea eu + dot ea ei)
                 + dot ea eg
                 + (the (g_bias m) ! g + the (a_bias m) ! a)) [0..<length (data user)],
           dev = device m, requires_grad = grad_enabled ev \<rparr>"
proof -
  from wf f2 obtain G GB A AB where
    G: "embed_gender m = Some G" "length G = 2" and GB: "g_bias m = Some GB" "length GB = 2"
    and A: "embed_age m = Some A" "length A = 3" and AB: "a_bias m = Some AB" "length AB = 3"
    and lub: "length (u_bias m) = length (embed_user m)"
    and lib: "length (i_bias m) = length (embed_item m)"
    by (rule wf_model_both)
  have rg': "\<forall>k \<in> set (data gender). 0 \<le> k \<and> k < int (length G)"
       "\<forall>k \<in> set (data gender). 0 \<le> k \<and> k < int (length GB)"
    using rg G GB by auto
  have ra': "\<forall>k \<in> set (data age). 0 \<le> k \<and> k < int (length A)"
       "\<forall>k \<in> set (data age). 0 \<le> k \<and> k < int (length AB)"
    using ra A AB by auto
  have ru': "\<forall>k \<in> set (data user). 0 \<le> k \<and> k < int (length (u_bias m))"
    using ru lub by simp
  have ri': "\<forall>k \<in> set (data item). 0 \<le> k \<and> k < int (length (i_bias m))"
    using ri lib by simp
  have eu: "nn_Embedding (device m) (embed_user m) user =
      Inr (map (\<lambda>k. embed_user m ! nat k) (data user))"
    by (rule nn_Embedding_ok[OF du ru])
  have ei: "nn_Embedding (device m) (embed_item m) item =
      Inr (map (\<lambda>k. embed_item m ! nat k) (data item))"
    by (rule nn_Embedding_ok[OF di ri])
  have ub: "nn_Embedding (device m) (u_bias m) user =
      Inr (map (\<lambda>k. u_bias m ! nat k) (data user))"
    by (rule nn_Embedding_ok[OF du ru'])
  have ib: "nn_Embedding (device m) (i_bias m) item =
      Inr (map (\<lambda>k. i_bias m ! nat k) (data item))"
    by (rule nn_Embedding_ok[OF di ri'])
  have eg: "nn_Embedding_opt (device m) G (Some gender) =
      Inr (map (\<lambda>k. G ! nat k) (data gender))"
    by (simp add: nn_Embedding_opt_def nn_Embedding_ok[OF dg rg'(1)])
  have gb: "nn_Embedding_opt (device m) GB (Some gender) =
      Inr (map (\<lambda>k. GB ! nat k) (data gender))"
    by (simp add: nn_Embedding_opt_def nn_Embedding_ok[OF dg rg'(2)])
  have ea: "nn_Embedding_opt (device m) A (Some age) =
      Inr (map (\<lambda>k. A ! nat k) (data age))"
    by (simp add: nn_Embedding_opt_def nn_Embedding_ok[OF da ra'(1)])
  have ab: "nn_Embedding_opt (device m) AB (Some age) =
      Inr (map (\<lambda>k. AB ! nat k) (data age))"
    by (simp add: nn_Embedding_opt_def nn_Embedding_ok[OF da ra'(2)])
  show ?thesis
    unfolding forward_def
    apply (simp add: f2 G GB A AB attr_def eu ei ub ib eg gb ea ab
        mul_sum_def bcast2_same iadd_same add_cross_same li lg la view_flat_def)
    apply (rule nth_equalityI)
     apply (simp add: li lg la)
    apply (simp add: li lg la Let_def)
    done
qed

lemma upt_2: "[0..<2] = [0, Suc 0]"
  by (simp add: numeral_2_eq_2)

lemma upt_3: "[0..<3] = [0, Suc 0, 2]"
  by (simp add: numeral_3_eq_3 upt_rec)

lemma fm_both_simps:
  "feature fm_both = 2" "device fm_both = CPU"
  "embed_user fm_both = [[0]]" "embed_item fm_both = [[1]]"
  "u_bias fm_both = [0]" "i_bias fm_both = [0]"
  "embed_gender fm_both = Some [[2], [3]]" "g_bias fm_both = Some [0, 0]"
  "embed_age fm_both = Some [[4], [5], [6]]" "a_bias fm_both = Some [0, 0, 0]"
  "bias' fm_both = 0"
  by (simp_all add: fm_both_def PointFM_def normal_init_def constant_init_def rng0_def
      upt_2 upt_3 numeral_2_eq_2 numeral_3_eq_3)

lemma wf_fm_both: "wf_model 1 fm_both"
  by (simp add: wf_model_def wf_table_def wf_side_def fm_both_simps)

subsection \<open>Scores with both side features\<close>

text \<open>
  Claim C1. On a model built with \<open>feature = 2\<close>, for index batches of one length on
  the device of the model and within the tables, \<^verbatim>\<open>forward\<close> and \<^verbatim>\<open>predict\<close> return
  one score per example, in the order of the batch; the score of an example is the
  base score \<open>dot eu ei + u_bias[user] + i_bias[item] + bias_\<close>, plus the four cross
  terms gender-user, gender-item, age-user, age-item, plus the age-gender term, plus
  \<open>g_bias[gender] + a_bias[age]\<close>. \<^verbatim>\<open>predict\<close> returns the same scores on the CPU.
\<close>

theorem feature2_scores:
  assumes "feature m = 2" and "wf_model F m"
    and "dev user = device m" and "dev item = device m"
    and "dev gender = device m" and "dev age = device m"
    and "length (data item) = length (data user)"
    and "length (data gender) = length (data user)"
    and "length (data age) = length (data user)"
    and "\<forall>k \<in> set (data user). 0 \<le> k \<and> k < int (length (embed_user m))"
    and "\<forall>k \<in> set (data item). 0 \<le> k \<and> k < int (length (embed_item m))"
    and "\<forall>k \<in> set (data gender). 0 \<le> k \<and> k < 2"
    and "\<forall>k \<in> set (data age). 0 \<le> k \<and> k < 3"
  shows
    "let scores = map (\<lambda>n.
              let u = nat (data user ! n); i = nat (data item ! n);
                  g = nat (data gender ! n); a = nat (data age ! n);
                  eu = embed_user m ! u; ei = embed_item m ! i;
                  eg = the (embed_gender m) ! g; ea = the (embed_age m) ! a
              in dot eu ei + u_bias m ! u + i_bias m ! i + bias' m
                 + (dot eg eu + dot eg ei + dot ea eu + dot ea ei)
                 + dot ea eg
                 + (the (g_bias m) ! g + the (a_bias m) ! a)) [0..<length (data user)]
     in forward ev m user item (Some gender) (Some age) =
          Inr \<lparr> data = scores, dev = device m, requires_grad = grad_enabled ev \<rparr> \<and>
        predict ev m user item (Some gender) (Some age) =
          Inr \<lparr> data = scores, dev = CPU, requires_grad = grad_enabled ev \<rparr>"
  using forward_feature2[OF assms, of ev] assms(1)
  by (simp add: predict_def cpu_def Let_def)

theorem feature2_scores_witness:
  "feature fm_both = 2 \<and> wf_model 1 fm_both \<and>
   forward env_gpu fm_both (tns CPU [0]) (tns CPU [0])
       (Some (tns CPU [1])) (Some (tns CPU [2])) =
     Inr \<lparr> data = [27], dev = CPU, requires_grad = True \<rparr> \<and>
   predict env_gpu fm_both (tns CPU [0]) (tns CPU [0])
       (Some (tns CPU [1])) (Some (tns CPU [2])) =
     Inr \<lparr> data = [27], dev = CPU, requires_grad = True \<rparr>"
proof -
  have f: "feature fm_both = 2" by (rule fm_both_simps)
  have w: "wf_model 1 fm_both" by (rule wf_fm_both)
  show ?thesis
    using feature2_scores[of fm_both 1 "tns CPU [0]" "tns CPU [0]" "tns CPU [1]"
        "tns CPU [2]" env_gpu] f w
    by (simp add: fm_both_simps tns_def env_gpu_def dot_def Let_def)
qed

subsection \<open>Concrete runs\<close>

lemma tns_sel [simp]:
  "data (tns d xs) = xs" "dev (tns d xs) = d" "requires_grad (tns d xs) = False"
  by (simp_all add: tns_def)

lemma env_simps [simp]:
  "cuda_available env_gpu" "grad_enabled env_gpu"
  "\<not> cuda_available env_cpu" "grad_enabled env_cpu"
  by (simp_all add: env_gpu_def env_cpu_def)

lemma PointFM_mode3:
  "PointFM rng0 1 1 1 3 (1 / 1000) r1 r2 lt ''sgd'' 3 True =
     \<lparr> epochs = 3, lr = 1 / 1000, reg_1 = r1, reg_2 = r2, feature = 3,
       embed_user = [[0]], embed_item = [[1]], u_bias = [0], i_bias = [0],
       embed_gender = None, g_bias = None, embed_age = None, a_bias = None, bias' = 0,
       loss_type = lt, optimizer = ''sgd'', early_stop = True, device = CPU,
       training = True \<rparr>"
  by (simp add: PointFM_def normal_init_def constant_init_def rng0_def)

lemma fm_plain_simps:
  "epochs fm_plain = 3" "lr fm_plain = 1 / 1000" "reg_1 fm_plain = 1 / 1000"
  "reg_2 fm_plain = 1 / 1000" "feature fm_plain = 3"
  "embed_user fm_plain = [[0]]" "embed_item fm_plain = [[1]]"
  "u_bias fm_plain = [0]" "i_bias fm_plain = [0]"
  "embed_gender fm_plain = None" "g_bias fm_plain = None"
  "embed_age fm_plain = None" "a_bias fm_plain = None" "bias' fm_plain = 0"
  "loss_type fm_plain = ''SL''" "early_stop fm_plain = True" "device fm_plain = CPU"
  "training fm_plain = True"
  unfolding fm_plain_def PointFM_mode3 by simp_all

lemma fm_noreg_simps:
  "epochs fm_noreg = 3" "lr fm_noreg = 1 / 1000" "reg_1 fm_noreg = 0"
  "reg_2 fm_noreg = 0" "feature fm_noreg = 3"
  "embed_user fm_noreg = [[0]]" "embed_item fm_noreg = [[1]]"
  "u_bias fm_noreg = [0]" "i_bias fm_noreg = [0]" "bias' fm_noreg = 0"
  "loss_type fm_noreg = ''SL''" "early_stop fm_noreg = True" "device fm_noreg = CPU"
  "training fm_noreg = True"
  unfolding fm_noreg_def PointFM_mode3 by simp_all

lemma fm_xyz_simps:
  "lr fm_xyz = 1 / 1000" "loss_type fm_xyz = ''XYZ''"
  unfolding fm_xyz_def PointFM_mode3 by simp_all

lemma fm_plain_fresh:
  "fm_plain\<lparr>device := CPU\<rparr> = fm_plain"
  "fm_plain\<lparr>training := True\<rparr> = fm_plain"
  "fm_plain\<lparr>device := d, training := True\<rparr> = fm_plain\<lparr>device := d\<rparr>"
  unfolding fm_plain_def PointFM_mode3 by simp_all

lemma norm_simps: "norm1 [[0]] = 0" "norm1 [[1]] = 1" "norm2 [[0]] = 0" "norm2 [[1]] = 1"
  by (simp_all add: norm1_def norm2_def)

lemma forward_none:
  assumes "feature m \<noteq> 0" "feature m \<noteq> 1" "feature m \<noteq> 2"
    and "dev u = device m" "dev i = device m" "data u = [ku]" "data i = [ki]"
    and "0 \<le> ku" "ku < int (length (embed_user m))" "ku < int (length (u_bias m))"
    and "0 \<le> ki" "ki < int (length (embed_item m))" "ki < int (length (i_bias m))"
  shows "forward ev m u i g a =
     Inr \<lparr> data = [dot (embed_user m ! nat ku) (embed_item m ! nat ki)
                    + (u_bias m ! nat ku + i_bias m ! nat ki + bias' m)],
           dev = device m, requires_grad = grad_enabled ev \<rparr>"
  using assms
  by (simp add: forward_def nn_Embedding_def mul_sum_def bcast2_def iadd_def view_flat_def)

lemma mse_one:
  "MSELoss_sum \<lparr> data = [x], dev = d, requires_grad = b \<rparr> (tns d [y]) =
     Inr (fadd (Finite 0) (fmul (fsub (Finite x) y) (fsub (Finite x) y)))"
  by (simp add: MSELoss_sum_def bcast2_def fsum_def Let_def)

lemma cuda_gpu: "cuda env_gpu (tns d xs) = Inr (tns GPU xs)"
  by (simp add: cuda_def tns_def)

lemma load_idle: "load_parameters m (sgd_idle m b) = m"
  by (simp add: load_parameters_def sgd_idle_def)

lemma load_parameters_hyper [simp]:
  "early_stop (load_parameters m m') = early_stop m"
  "training (load_parameters m m') = training m"
  by (simp_all add: load_parameters_def)

text \<open>
  The body of the batch loop on the GPU for an object with the tables of \<open>fm_plain\<close>
  and the batch of user 0 and item 0 with label \<open>y\<close>.
\<close>

lemma batch_loss_plain:
  assumes "feature m = 3" "device m = GPU" "embed_user m = [[0]]" "embed_item m = [[1]]"
    and "u_bias m = [0]" "i_bias m = [0]" "bias' m = 0"
  shows "batch_loss env_gpu MSELoss_sum m (tns GPU [0]) (tns GPU [0]) g a (tns GPU [y]) =
     Inr (fadd (fadd (fadd (Finite 0) (fmul (fsub (Finite 0) y) (fsub (Finite 0) y)))
                     (Finite (reg_1 m))) (Finite (reg_2 m)))"
proof -
  have f: "forward env_gpu m (tns GPU [0]) (tns GPU [0]) None None =
      Inr \<lparr> data = [0], dev = GPU, requires_grad = True \<rparr>"
    using assms by (simp add: forward_none[where ku=0 and ki=0] dot_def)
  show ?thesis
    using assms by (simp add: batch_loss_def f mse_one norm_simps)
qed

lemma train_batch_plain:
  assumes "feature m = 3" "device m = GPU" "embed_user m = [[0]]" "embed_item m = [[1]]"
    and "u_bias m = [0]" "i_bias m = [0]" "bias' m = 0"
  shows "train_batch env_gpu opt_step MSELoss_sum m (tns d1 [0], tns d2 [0], g, a, tns d3 [y]) =
     (if isnan (fadd (fadd (fadd (Finite 0) (fmul (fsub (Finite 0) y) (fsub (Finite 0) y)))
                     (Finite (reg_1 m))) (Finite (reg_2 m)))
      then Inl (ValueError
             ''Loss=Nan or Infinity: current settings does not fit the recommender'')
      else Inr (load_parameters m
                  (opt_step m (tns GPU [0], tns GPU [0], g, a, tns GPU [y])),
                fadd (fadd (fadd (Finite 0) (fmul (fsub (Finite 0) y) (fsub (Finite 0) y)))
                     (Finite (reg_1 m))) (Finite (reg_2 m))))"
  using assms
  by (simp add: train_batch_def cuda_gpu batch_loss_plain[OF assms])

lemma train_batch_inf:
  "train_batch env_gpu opt_step MSELoss_sum (fm_plain\<lparr>device := GPU, training := tr\<rparr>)
       batch_inf =
     Inr (load_parameters (fm_plain\<lparr>device := GPU, training := tr\<rparr>)
            (opt_step (fm_plain\<lparr>device := GPU, training := tr\<rparr>)
               (tns GPU [0], tns GPU [0], None, None, tns GPU [PosInf])), PosInf)"
  by (simp add: batch_inf_def train_batch_plain fm_plain_simps fsub_def isnan_def)

lemma train_batch_zero:
  "train_batch env_gpu sgd_idle MSELoss_sum (fm_plain\<lparr>device := GPU, training := tr\<rparr>)
       batch_zero =
     Inr (fm_plain\<lparr>device := GPU, training := tr\<rparr>, Finite (1 / 500))"
  by (simp add: batch_zero_def train_batch_plain fm_plain_simps fsub_def isnan_def load_idle)

lemma train_batch_noreg:
  "train_batch env_gpu sgd_idle MSELoss_sum (fm_noreg\<lparr>device := GPU, training := tr\<rparr>)
       batch_zero =
     Inr (fm_noreg\<lparr>device := GPU, training := tr\<rparr>, Finite 0)"
  by (simp add: batch_zero_def train_batch_plain fm_noreg_simps fsub_def isnan_def load_idle)

lemma to_device_gpu: "to_device env_gpu m = m\<lparr>device := GPU\<rparr>"
  by (simp add: to_device_def module_cuda_def)

lemma fit_zero:
  "fit env_gpu sgd_idle fm_plain [batch_zero] =
     \<lparr> raised = None, self = fm_plain\<lparr>device := GPU, training := False\<rparr>,
       events = [Next, Step (Finite (1 / 500)), Epoch (Finite (1 / 500)),
                 Next, Step (Finite (1 / 500)), Epoch (Finite (1 / 500)), EarlyStop] \<rparr>"
  unfolding fit_def to_device_gpu
  by (simp add: fm_plain_simps select_criterion_def numeral_3_eq_3 train_batch_zero
      fsub_def prepend_events_def Let_def)

lemma train_batch_no_gpu:
  "\<not> cuda_available ev \<Longrightarrow> train_batch ev opt_step criterion m b = Inl CudaError"
  by (simp add: train_batch_def cuda_def split: prod.splits)

subsection \<open>The loops of fit\<close>

lemma epoch_totals_append: "epoch_totals (xs @ ys) = epoch_totals xs @ epoch_totals ys"
  by (induction xs rule: epoch_totals.induct) simp_all

lemma train_batch_early_stop:
  "train_batch ev opt_step criterion m b = Inr (m', l) \<Longrightarrow> early_stop m' = early_stop m"
  by (auto simp: train_batch_def load_parameters_def ebind_def
      split: prod.splits sum.splits if_splits)

lemma batch_loop_keeps:
  "batch_loop ev opt_step criterion m c bs = (r, m', c', evs) \<Longrightarrow>
   early_stop m' = early_stop m \<and> epoch_totals evs = []"
proof (induction bs arbitrary: m c r m' c' evs)
  case Nil
  then show ?case by simp
next
  case (Cons b bs)
  show ?case
  proof (cases "train_batch ev opt_step criterion m b")
    case (Inl e)
    with Cons.prems show ?thesis by auto
  next
    case (Inr p)
    obtain m1 l where p: "p = (m1, l)" by (cases p)
    obtain r2 m2 c2 evs2 where
      rec: "batch_loop ev opt_step criterion m1 (fadd c l) bs = (r2, m2, c2, evs2)"
      by (metis prod_cases4)
    from Cons.prems Inr p rec have "m' = m2" "evs = Next # Step l # evs2" by auto
    moreover from Cons.IH[OF rec] have "early_stop m2 = early_stop m1" "epoch_totals evs2 = []"
      by auto
    moreover from train_batch_early_stop Inr p have "early_stop m1 = early_stop m" by blast
    ultimately show ?thesis by simp
  qed
qed

lemma epoch_loop_rule:
  "let r = epoch_loop ev opt_step criterion train_loader n m l0;
       hs = epoch_totals (events r)
   in length hs \<le> n \<and>
      (\<forall>k. k < length hs \<and> stop_at (early_stop m) l0 hs k \<longrightarrow> Suc k = length hs) \<and>
      (raised r = None \<and> length hs < n \<longrightarrow>
         hs \<noteq> [] \<and> stop_at (early_stop m) l0 hs (length hs - 1))"
proof (induction n arbitrary: m l0)
  case 0
  show ?case by simp
next
  case (Suc n)
  obtain r1 m1 c evs where
    bl: "batch_loop ev opt_step criterion (m\<lparr>training := True\<rparr>) (Finite 0) train_loader
           = (r1, m1, c, evs)"
    by (metis prod_cases4)
  from batch_loop_keeps[OF bl] have es: "early_stop m1 = early_stop m"
    and tot: "epoch_totals evs = []" by simp_all
  show ?case
  proof (cases r1)
    case (Some e)
    with bl tot show ?thesis by simp
  next
    case None
    show ?thesis
    proof (cases "flt (fabs (fsub c l0)) (Finite (1 / 100000)) \<and> early_stop m")
      case True
      with bl None tot es show ?thesis
        by (simp add: epoch_totals_append stop_at_def Let_def)
    next
      case False
      let ?r = "epoch_loop ev opt_step criterion train_loader n (m1\<lparr>training := False\<rparr>) c"
      let ?hs = "epoch_totals (events ?r)"
      have res: "epoch_loop ev opt_step criterion train_loader (Suc n) m l0
          = prepend_events (evs @ [Epoch c]) ?r"
        using bl None False es by (auto simp: Let_def)
      have hs: "epoch_totals (events (prepend_events (evs @ [Epoch c]) ?r)) = c # ?hs"
        by (simp add: prepend_events_def epoch_totals_append tot)
      have rs: "raised (prepend_events (evs @ [Epoch c]) ?r) = raised ?r"
        by (simp add: prepend_events_def)
      from Suc.IH[of "m1\<lparr>training := False\<rparr>" c] es
      have ih1: "length ?hs \<le> n"
        and ih2: "\<And>k. k < length ?hs \<Longrightarrow> stop_at (early_stop m) c ?hs k \<Longrightarrow> Suc k = length ?hs"
        and ih3: "raised ?r = None \<Longrightarrow> length ?hs < n \<Longrightarrow>
                    ?hs \<noteq> [] \<and> stop_at (early_stop m) c ?hs (length ?hs - 1)"
        by (simp_all add: Let_def)
      have n0: "\<not> stop_at (early_stop m) l0 (c # ?hs) 0"
        using False by (auto simp: stop_at_def)
      have shift: "\<And>j. stop_at (early_stop m) l0 (c # ?hs) (Suc j) = stop_at (early_stop m) c ?hs j"
        by (simp add: stop_at_def)
      have b: "\<forall>k. k < length (c # ?hs) \<and> stop_at (early_stop m) l0 (c # ?hs) k
                 \<longrightarrow> Suc k = length (c # ?hs)"
      proof (intro allI impI, elim conjE)
        fix k assume k: "k < length (c # ?hs)" and s: "stop_at (early_stop m) l0 (c # ?hs) k"
        show "Suc k = length (c # ?hs)"
        proof (cases k)
          case 0
          with s n0 show ?thesis by simp
        next
          case (Suc j)
          with k s shift ih2[of j] show ?thesis by simp
        qed
      qed
      have c3: "raised ?r = None \<and> length (c # ?hs) < Suc n \<longrightarrow>
           c # ?hs \<noteq> [] \<and> stop_at (early_stop m) l0 (c # ?hs) (length (c # ?hs) - 1)"
      proof (intro impI, elim conjE)
        assume "raised ?r = None" and "length (c # ?hs) < Suc n"
        with ih3 have ne: "?hs \<noteq> []" and st: "stop_at (early_stop m) c ?hs (length ?hs - 1)"
          by simp_all
        from ne obtain j where j: "length ?hs = Suc j" by (cases ?hs) auto
        with st shift[of j] show "c # ?hs \<noteq> [] \<and> stop_at (early_stop m) l0 (c # ?hs) (length (c # ?hs) - 1)"
          by simp
      qed
      show ?thesis
        unfolding Let_def res hs rs using ih1 b c3 by simp
    qed
  qed
qed



lemma batch_loop_next:
  "batch_loop ev opt_step criterion m c bs = (r, m', c', evs) \<Longrightarrow>
   count_list evs Next \<le> length bs"
proof (induction bs arbitrary: m c r m' c' evs)
  case Nil
  then show ?case by simp
next
  case (Cons b bs)
  show ?case
  proof (cases "train_batch ev opt_step criterion m b")
    case (Inl e)
    with Cons.prems show ?thesis by auto
  next
    case (Inr p)
    obtain m1 l where p: "p = (m1, l)" by (cases p)
    obtain r2 m2 c2 evs2 where
      rec: "batch_loop ev opt_step criterion m1 (fadd c l) bs = (r2, m2, c2, evs2)"
      by (metis prod_cases4)
    from Cons.prems Inr p rec have "evs = Next # Step l # evs2" by auto
    with Cons.IH[OF rec] show ?thesis by simp
  qed
qed

lemma epoch_loop_next:
  "count_list (events (epoch_loop ev opt_step criterion train_loader n m l0)) Next
     \<le> n * length train_loader"
proof (induction n arbitrary: m l0)
  case 0
  show ?case by simp
next
  case (Suc n)
  obtain r1 m1 c evs where
    bl: "batch_loop ev opt_step criterion (m\<lparr>training := True\<rparr>) (Finite 0) train_loader
           = (r1, m1, c, evs)"
    by (metis prod_cases4)
  from batch_loop_next[OF bl] have le: "count_list evs Next \<le> length train_loader" .
  have app: "\<And>xs ys. count_list (xs @ ys) Next = count_list xs Next + count_list ys Next"
    by simp
  show ?case
  proof (cases r1)
    case (Some e)
    with bl le show ?thesis by simp
  next
    case None
    with bl le Suc.IH[of "m1\<lparr>training := False\<rparr>" c] show ?thesis
      by (auto simp: Let_def prepend_events_def intro: le_trans)
  qed
qed

lemma fsub_zero: "fsub c (Finite 0) = c"
  by (cases c) (simp_all add: fsub_def)

subsection \<open>An unknown loss type\<close>

text \<open>
  Claim C2. When \<open>loss_type\<close> is neither \<open>CL\<close> nor \<open>SL\<close>, \<^verbatim>\<open>fit\<close> raises a
  ValueError before the epoch loop: no batch is drawn from the loader, no epoch runs,
  and the object is as it was but for its placement on the device. (The error is the
  one of the loss type unless the learning rate is negative, which the optimizer's
  constructor rejects one line earlier.)
\<close>

theorem invalid_loss_type_raises:
  assumes "loss_type m \<noteq> ''CL''" and "loss_type m \<noteq> ''SL''"
  shows "fit ev opt_step m train_loader =
     \<lparr> raised = Some (ValueError (if lr m < 0 then ''Invalid learning rate''
                                   else ''Invalid loss type: '' @ loss_type m)),
       self = to_device ev m, events = [] \<rparr>"
  using assms
  by (simp add: fit_def select_criterion_def to_device_def module_cuda_def module_cpu_def Let_def)

theorem invalid_loss_type_raises_witness:
  "loss_type fm_xyz \<noteq> ''CL'' \<and> loss_type fm_xyz \<noteq> ''SL'' \<and>
   fit env_gpu sgd_idle fm_xyz [batch_zero] =
     \<lparr> raised = Some (ValueError ''Invalid loss type: XYZ''),
       self = fm_xyz\<lparr>device := GPU\<rparr>, events = [] \<rparr>"
proof -
  have a: "loss_type fm_xyz \<noteq> ''CL''" and b: "loss_type fm_xyz \<noteq> ''SL''"
    by (simp_all add: fm_xyz_simps)
  show ?thesis
    using invalid_loss_type_raises[OF a b, of env_gpu sgd_idle "[batch_zero]"] a b
    by (simp add: fm_xyz_simps to_device_def module_cuda_def)
qed


subsection \<open>A loss that is infinite\<close>

text \<open>
  Claim C3 does not hold of the code. The squared loss of one example with label
  \<open>+inf\<close> is \<open>+inf\<close>, which \<^verbatim>\<open>torch.isnan\<close> does not flag although the message of
  the exception names infinity: whatever the optimizer does, the batch body takes its
  step with that loss, and a \<^verbatim>\<open>fit\<close> of one epoch finishes the epoch without
  raising.
\<close>

theorem infinite_loss_not_caught:
  "train_batch env_gpu opt_step MSELoss_sum (fm_plain\<lparr>device := GPU\<rparr>) batch_inf =
     Inr (load_parameters (fm_plain\<lparr>device := GPU\<rparr>)
            (opt_step (fm_plain\<lparr>device := GPU\<rparr>)
               (tns GPU [0], tns GPU [0], None, None, tns GPU [PosInf])), PosInf) \<and>
   raised (fit env_gpu opt_step (fm_plain\<lparr>epochs := 1\<rparr>) [batch_inf]) = None \<and>
   events (fit env_gpu opt_step (fm_plain\<lparr>epochs := 1\<rparr>) [batch_inf]) =
     [Next, Step PosInf, Epoch PosInf]"
proof -
  have t: "train_batch env_gpu opt_step MSELoss_sum
       (fm_plain\<lparr>epochs := 1, device := GPU, training := True\<rparr>) batch_inf =
     Inr (load_parameters (fm_plain\<lparr>epochs := 1, device := GPU, training := True\<rparr>)
            (opt_step (fm_plain\<lparr>epochs := 1, device := GPU, training := True\<rparr>)
               (tns GPU [0], tns GPU [0], None, None, tns GPU [PosInf])), PosInf)"
    by (simp add: batch_inf_def train_batch_plain fm_plain_simps fsub_def isnan_def)
  have f: "raised (fit env_gpu opt_step (fm_plain\<lparr>epochs := 1\<rparr>) [batch_inf]) = None \<and>
      events (fit env_gpu opt_step (fm_plain\<lparr>epochs := 1\<rparr>) [batch_inf]) =
        [Next, Step PosInf, Epoch PosInf]"
    unfolding fit_def to_device_gpu
    by (simp add: fm_plain_simps select_criterion_def t fsub_def prepend_events_def Let_def)
  show ?thesis
    using train_batch_inf[of opt_step True] f by (simp add: fm_plain_fresh)
qed

subsection \<open>The epoch loop and the early stop\<close>

text \<open>
  Claim C4. Let \<open>hs\<close> be the totals of the epochs that a run of \<^verbatim>\<open>fit\<close> completes,
  in order. The run completes at most \<open>epochs\<close> epochs and draws at most \<open>epochs\<close>
  times the batches of the loader. The loss of epoch \<open>k\<close> is
  compared with the total recorded before it (\<open>0\<close> for the first epoch, the total of
  epoch \<open>k - 1\<close> after that): if \<^verbatim>\<open>early_stop\<close> is set and the absolute difference is
  below \<open>1e-5\<close>, epoch \<open>k\<close> is the last one; and a run that ends without an exception
  before \<open>epochs\<close> epochs are done has ended by exactly this test, so that otherwise the
  next epoch runs.
\<close>

theorem fit_epoch_rule:
  "let r = fit ev opt_step m train_loader; hs = epoch_totals (events r)
   in length hs \<le> nat (epochs m) \<and>
      count_list (events r) Next \<le> nat (epochs m) * length train_loader \<and>
      (\<forall>k. k < length hs \<and> early_stop m \<and>
            flt (fabs (fsub (hs ! k) ((Finite 0 # hs) ! k))) (Finite (1 / 100000))
          \<longrightarrow> Suc k = length hs) \<and>
      (raised r = None \<and> length hs < nat (epochs m) \<longrightarrow>
         hs \<noteq> [] \<and> early_stop m \<and>
         flt (fabs (fsub (hs ! (length hs - 1)) ((Finite 0 # hs) ! (length hs - 1))))
             (Finite (1 / 100000)))"
proof -
  have hp: "early_stop (to_device ev m) = early_stop m" "epochs (to_device ev m) = epochs m"
    by (simp_all add: to_device_def module_cuda_def module_cpu_def)
  show ?thesis
  proof (cases "lr (to_device ev m) < 0")
    case True
    then show ?thesis by (simp add: fit_def Let_def)
  next
    case False
    show ?thesis
    proof (cases "select_criterion (loss_type (to_device ev m))")
      case (Inl e)
      with False show ?thesis by (simp add: fit_def Let_def)
    next
      case (Inr criterion)
      have "fit ev opt_step m train_loader =
          epoch_loop ev opt_step criterion train_loader (nat (epochs m)) (to_device ev m) (Finite 0)"
        using False Inr by (simp add: fit_def Let_def hp)
      with epoch_loop_rule[of ev opt_step criterion train_loader "nat (epochs m)"
            "to_device ev m" "Finite 0"]
          epoch_loop_next[of ev opt_step criterion train_loader "nat (epochs m)"
            "to_device ev m" "Finite 0"]
      show ?thesis
        by (simp add: Let_def hp stop_at_def)
    qed
  qed
qed


theorem fit_epoch_rule_witness:
  "epoch_totals (events (fit env_gpu sgd_idle fm_plain [batch_zero])) =
     [Finite (1 / 500), Finite (1 / 500)] \<and>
   raised (fit env_gpu sgd_idle fm_plain [batch_zero]) = None \<and>
   early_stop fm_plain \<and> epochs fm_plain = 3 \<and>
   count_list (events (fit env_gpu sgd_idle fm_plain [batch_zero])) Next = 2 \<and>
   \<not> flt (fabs (fsub (Finite (1 / 500)) (Finite 0))) (Finite (1 / 100000)) \<and>
   flt (fabs (fsub (Finite (1 / 500)) (Finite (1 / 500)))) (Finite (1 / 100000))"
  using fit_epoch_rule[of env_gpu sgd_idle fm_plain "[batch_zero]"]
  by (simp add: fit_zero fm_plain_simps fsub_def)

subsection \<open>A process without a GPU\<close>

text \<open>
  Claim C5 does not hold of the code. Without a GPU the module is placed on the CPU,
  but the batch loop calls \<^verbatim>\<open>.cuda()\<close> on the tensors of the first batch all the
  same: \<^verbatim>\<open>fit\<close> raises there, after drawing one batch and before any optimizer
  step.
\<close>

theorem fit_without_gpu_raises:
  "fit env_cpu opt_step fm_plain [batch_zero] =
     \<lparr> raised = Some CudaError, self = fm_plain, events = [Next] \<rparr>"
proof -
  have d: "to_device env_cpu fm_plain = fm_plain"
    by (simp add: to_device_def module_cpu_def fm_plain_fresh)
  show ?thesis
    unfolding fit_def d
    by (simp add: fm_plain_simps select_criterion_def numeral_3_eq_3 train_batch_no_gpu
        fm_plain_fresh)
qed

subsection \<open>The first epoch is compared with zero\<close>

text \<open>
  Claim C9. \<^verbatim>\<open>last_loss\<close> starts at \<open>0\<close>: when \<^verbatim>\<open>early_stop\<close> is set and the first
  epoch runs through with a total whose absolute value is below \<open>1e-5\<close>, \<^verbatim>\<open>fit\<close>
  ends after exactly that one epoch, with the early-stop message and no exception.
\<close>

theorem first_epoch_early_stop:
  assumes "0 \<le> lr m" and "0 < epochs m" and "early_stop m"
    and "select_criterion (loss_type m) = Inr criterion"
    and "batch_loop ev opt_step criterion ((to_device ev m)\<lparr>training := True\<rparr>) (Finite 0)
           train_loader = (None, m1, c, evs)"
    and "flt (fabs c) (Finite (1 / 100000))"
  shows "fit ev opt_step m train_loader =
           \<lparr> raised = None, self = m1\<lparr>training := False\<rparr>,
             events = evs @ [Epoch c, EarlyStop] \<rparr> \<and>
         epoch_totals (events (fit ev opt_step m train_loader)) = [c]"
proof -
  have hp: "early_stop (to_device ev m) = early_stop m" "epochs (to_device ev m) = epochs m"
    "lr (to_device ev m) = lr m" "loss_type (to_device ev m) = loss_type m"
    by (simp_all add: to_device_def module_cuda_def module_cpu_def)
  from assms(2) obtain n where n: "nat (epochs m) = Suc n"
    by (cases "nat (epochs m)") auto
  from batch_loop_keeps[OF assms(5)] hp assms(3)
  have es: "early_stop m1" and tot: "epoch_totals evs = []" by simp_all
  have "fit ev opt_step m train_loader =
      \<lparr> raised = None, self = m1\<lparr>training := False\<rparr>, events = evs @ [Epoch c, EarlyStop] \<rparr>"
    using assms(1,4,5,6) es
    by (simp add: fit_def Let_def hp n fsub_zero)
  then show ?thesis
    by (simp add: epoch_totals_append tot)
qed

theorem first_epoch_early_stop_witness:
  "0 \<le> lr fm_noreg \<and> 0 < epochs fm_noreg \<and> early_stop fm_noreg \<and>
   select_criterion (loss_type fm_noreg) = Inr MSELoss_sum \<and>
   batch_loop env_gpu sgd_idle MSELoss_sum ((to_device env_gpu fm_noreg)\<lparr>training := True\<rparr>)
       (Finite 0) [batch_zero] =
     (None, fm_noreg\<lparr>device := GPU, training := True\<rparr>, Finite 0, [Next, Step (Finite 0)]) \<and>
   flt (fabs (Finite 0)) (Finite (1 / 100000)) \<and>
   fit env_gpu sgd_idle fm_noreg [batch_zero] =
     \<lparr> raised = None, self = fm_noreg\<lparr>device := GPU, training := False\<rparr>,
       events = [Next, Step (Finite 0), Epoch (Finite 0), EarlyStop] \<rparr> \<and>
   epoch_totals (events (fit env_gpu sgd_idle fm_noreg [batch_zero])) = [Finite 0]"
proof -
  have a: "0 \<le> lr fm_noreg" "0 < epochs fm_noreg" "early_stop fm_noreg"
    by (simp_all add: fm_noreg_simps)
  have s: "select_criterion (loss_type fm_noreg) = Inr MSELoss_sum"
    by (simp add: select_criterion_def fm_noreg_simps)
  have b: "batch_loop env_gpu sgd_idle MSELoss_sum
       ((to_device env_gpu fm_noreg)\<lparr>training := True\<rparr>) (Finite 0) [batch_zero] =
     (None, fm_noreg\<lparr>device := GPU, training := True\<rparr>, Finite 0, [Next, Step (Finite 0)])"
    by (simp add: to_device_gpu train_batch_noreg)
  have f: "flt (fabs (Finite 0)) (Finite (1 / 100000))" by simp
  show ?thesis
    using first_epoch_early_stop[OF a s b f] a s b f by simp
qed

subsection \<open>The shape of what forward returns\<close>

lemma ebind_InrE:
  assumes "ebind x f = Inr y"
  obtains v where "x = Inr v" and "f v = Inr y"
  using assms by (cases x) auto

lemma nn_Embedding_length: "nn_Embedding d W t = Inr r \<Longrightarrow> length r = length (data t)"
  by (auto simp: nn_Embedding_def split: if_splits)

lemma bcast2_length: "bcast2 f xs ys = Inr zs \<Longrightarrow> length xs = length ys \<Longrightarrow> length zs = length xs"
  by (auto simp: bcast2_def)

lemma iadd_length: "iadd p r = Inr p' \<Longrightarrow> length p' = length p"
  by (auto simp: iadd_def split: if_splits)

lemma add_cross_length: "add_cross e eu ei p = Inr p' \<Longrightarrow> length p' = length p"
  by (auto simp: add_cross_def elim!: ebind_InrE dest: iadd_length)

lemma forward_shape:
  assumes "forward ev m u i g a = Inr t"
  shows "dev t = device m \<and> requires_grad t = grad_enabled ev \<and>
         (length (data i) = length (data u) \<longrightarrow> length (data t) = length (data u))"
proof -
  from assms obtain eu ei p0 bs p1 p2 where
    eu: "nn_Embedding (device m) (embed_user m) u = Inr eu"
    and ei: "nn_Embedding (device m) (embed_item m) i = Inr ei"
    and p0: "mul_sum eu ei = Inr p0"
    and p1: "iadd p0 (map (\<lambda>x. x + bias' m) bs) = Inr p1"
    and side: "(if feature m = 0 then
          ebind (attr (embed_gender m)) (\<lambda>G.
          ebind (nn_Embedding_opt (device m) G g) (\<lambda>eg.
          ebind (add_cross eg eu ei p1) (\<lambda>pred.
          ebind (attr (g_bias m)) (\<lambda>GB.
          ebind (nn_Embedding_opt (device m) GB g) (\<lambda>gb.
          iadd pred gb)))))
        else if feature m = 1 then
          ebind (attr (embed_age m)) (\<lambda>A.
          ebind (nn_Embedding_opt (device m) A a) (\<lambda>ea.
          ebind (add_cross ea eu ei p1) (\<lambda>pred.
          ebind (attr (a_bias m)) (\<lambda>AB.
          ebind (nn_Embedding_opt (device m) AB a) (\<lambda>ab.
          iadd pred ab)))))
        else if feature m = 2 then
          ebind (attr (embed_gender m)) (\<lambda>G.
          ebind (nn_Embedding_opt (device m) G g) (\<lambda>eg.
          ebind (attr (embed_age m)) (\<lambda>A.
          ebind (nn_Embedding_opt (device m) A a) (\<lambda>ea.
          ebind (add_cross eg eu ei p1) (\<lambda>pred.
          ebind (add_cross ea eu ei pred) (\<lambda>pred.
          ebind (mul_sum ea eg) (\<lambda>ag.
          ebind (iadd pred ag) (\<lambda>pred.
          ebind (attr (g_bias m)) (\<lambda>GB.
          ebind (nn_Embedding_opt (device m) GB g) (\<lambda>gb.
          ebind (attr (a_bias m)) (\<lambda>AB.
          ebind (nn_Embedding_opt (device m) AB a) (\<lambda>ab.
          ebind (bcast2 (+) gb ab) (\<lambda>s.
          iadd pred s)))))))))))))
        else Inr p1) = Inr p2"
    and t: "t = \<lparr> data = view_flat p2, dev = device m, requires_grad = grad_enabled ev \<rparr>"
    unfolding forward_def by (elim ebind_InrE) auto
  have l2: "length p2 = length p1"
    using side
    by (auto split: if_splits elim!: ebind_InrE dest!: iadd_length add_cross_length)
  have l1: "length p1 = length p0" using p1 by (rule iadd_length)
  have l0: "length (data i) = length (data u) \<Longrightarrow> length p0 = length (data u)"
    using p0 nn_Embedding_length[OF eu] nn_Embedding_length[OF ei]
    by (auto simp: mul_sum_def dest: bcast2_length)
  show ?thesis
    using t l0 l1 l2 by (simp add: view_flat_def)
qed


lemma predict_forward:
  "predict ev m u i g a =
     ebind (forward ev m u i (if feature m = 0 \<or> feature m = 2 then g else None)
                             (if feature m = 1 \<or> feature m = 2 then a else None))
       (\<lambda>pred. Inr (cpu pred))"
  by (simp add: predict_def)

lemma fm_gender_simps:
  "feature fm_gender = 0" "device fm_gender = CPU"
  "embed_user fm_gender = [[0]]" "embed_item fm_gender = [[1]]"
  "u_bias fm_gender = [0]" "i_bias fm_gender = [0]"
  "embed_gender fm_gender = Some [[2], [3]]" "g_bias fm_gender = Some [0, 0]"
  "embed_age fm_gender = None" "a_bias fm_gender = None"
  by (simp_all add: fm_gender_def PointFM_def normal_init_def constant_init_def rng0_def
      upt_2 numeral_2_eq_2)

lemma fm_age_simps:
  "feature fm_age = 1" "device fm_age = CPU"
  "embed_user fm_age = [[0]]" "embed_item fm_age = [[1]]"
  "u_bias fm_age = [0]" "i_bias fm_age = [0]"
  "embed_gender fm_age = None" "g_bias fm_age = None"
  "embed_age fm_age = Some [[2], [3], [4]]" "a_bias fm_age = Some [0, 0, 0]"
  by (simp_all add: fm_age_def PointFM_def normal_init_def constant_init_def rng0_def
      upt_3 numeral_3_eq_3)

lemma wf_fm_gender: "wf_model 1 fm_gender"
  by (simp add: wf_model_def wf_table_def wf_side_def fm_gender_simps)

lemma wf_fm_age: "wf_model 1 fm_age"
  by (simp add: wf_model_def wf_table_def wf_side_def fm_age_simps)

lemma wf_fm_plain: "wf_model 1 fm_plain"
  by (simp add: wf_model_def wf_table_def wf_side_def fm_plain_simps)

subsection \<open>predict hands the scores to the host\<close>

text \<open>
  Claim C8 as stated fails: \<^verbatim>\<open>predict\<close> moves the result to the CPU but does not
  detach it. With gradient mode on, as it is by default, the tensor returned for the
  object without side features tracks gradients.
\<close>

theorem predict_tracks_gradients:
  "predict env_gpu fm_plain (tns CPU [0]) (tns CPU [0]) None None =
     Inr \<lparr> data = [0], dev = CPU, requires_grad = True \<rparr>"
  by (simp add: predict_def cpu_def fm_plain_simps forward_none[where ku=0 and ki=0] dot_def)

text \<open>
  Claim C8, amended. \<^verbatim>\<open>predict\<close> calls \<^verbatim>\<open>forward\<close> with the side features of the
  mode and fails when and as \<^verbatim>\<open>forward\<close> fails; otherwise it returns the scores of
  \<^verbatim>\<open>forward\<close> on the CPU, one per example when user and item batch have one length,
  and the result tracks gradients exactly when gradient mode is on.
\<close>

theorem predict_on_host:
  "predict ev m u i g a =
     (case forward ev m u i (if feature m = 0 \<or> feature m = 2 then g else None)
                            (if feature m = 1 \<or> feature m = 2 then a else None) of
        Inl e \<Rightarrow> Inl e
      | Inr t \<Rightarrow> Inr \<lparr> data = data t, dev = CPU, requires_grad = requires_grad t \<rparr>) \<and>
   (\<forall>t. predict ev m u i g a = Inr t \<longrightarrow>
      dev t = CPU \<and> requires_grad t = grad_enabled ev \<and>
      (length (data i) = length (data u) \<longrightarrow> length (data t) = length (data u)))"
proof (intro conjI allI impI)
  show "predict ev m u i g a =
     (case forward ev m u i (if feature m = 0 \<or> feature m = 2 then g else None)
                            (if feature m = 1 \<or> feature m = 2 then a else None) of
        Inl e \<Rightarrow> Inl e
      | Inr t \<Rightarrow> Inr \<lparr> data = data t, dev = CPU, requires_grad = requires_grad t \<rparr>)"
    by (simp add: predict_forward ebind_def cpu_def split: sum.splits)
next
  fix t assume p: "predict ev m u i g a = Inr t"
  then obtain t0 where
    f: "forward ev m u i (if feature m = 0 \<or> feature m = 2 then g else None)
          (if feature m = 1 \<or> feature m = 2 then a else None) = Inr t0"
    and t: "t = cpu t0"
    unfolding predict_forward by (elim ebind_InrE) auto
  from forward_shape[OF f] t
  show "dev t = CPU" "requires_grad t = grad_enabled ev"
    by (simp_all add: cpu_def)
  assume "length (data i) = length (data u)"
  with forward_shape[OF f] t show "length (data t) = length (data u)"
    by (simp add: cpu_def)
qed

theorem predict_on_host_witness:
  "predict env_gpu fm_both (tns CPU [0]) (tns CPU [0]) (Some (tns CPU [1])) (Some (tns CPU [2])) =
     Inr \<lparr> data = [27], dev = CPU, requires_grad = True \<rparr> \<and>
   forward env_gpu fm_both (tns CPU [0]) (tns CPU [0]) (Some (tns CPU [1])) (Some (tns CPU [2])) =
     Inr \<lparr> data = [27], dev = CPU, requires_grad = True \<rparr> \<and>
   grad_enabled env_gpu \<and>
   length (data (tns CPU [0::int])) = length (data (tns CPU [0::int])) \<and>
   length [27::real] = length (data (tns CPU [0::int]))"
proof -
  have f: "forward env_gpu fm_both (tns CPU [0]) (tns CPU [0]) (Some (tns CPU [1]))
      (Some (tns CPU [2])) = Inr \<lparr> data = [27], dev = CPU, requires_grad = True \<rparr>"
    using forward_feature2[of fm_both 1 "tns CPU [0]" "tns CPU [0]" "tns CPU [1]"
        "tns CPU [2]" env_gpu] wf_fm_both
    by (simp add: fm_both_simps dot_def Let_def)
  show ?thesis
    using predict_on_host[of env_gpu fm_both "tns CPU [0]" "tns CPU [0]" "Some (tns CPU [1])"
        "Some (tns CPU [2])"]
    by (simp add: f fm_both_simps)
qed

subsection \<open>No side features\<close>

text \<open>
  Claim C6. For a feature mode outside \<open>{0, 1, 2}\<close>: what \<^verbatim>\<open>predict\<close> returns does not
  depend on the gender and age arguments, nor on the side-feature tables, present or
  not, so that no lookup in them takes place; and for a one-example batch within the
  user and item tables, on the device of the model, it returns the single number
  \<open>dot eu ei + (u_bias[user] + i_bias[item] + bias_)\<close>, with no side-feature table on
  the object.
\<close>

theorem predict_without_side_features:
  assumes "feature m \<noteq> 0" and "feature m \<noteq> 1" and "feature m \<noteq> 2"
  shows "predict ev m u i g a = predict ev m u i g' a' \<and>
     predict ev (m\<lparr>embed_gender := EG, g_bias := GB, embed_age := EA, a_bias := AB\<rparr>) u i g a =
       predict ev m u i g a \<and>
     (wf_model F m \<and> dev u = device m \<and> dev i = device m \<and>
      data u = [ku] \<and> data i = [ki] \<and>
      0 \<le> ku \<and> ku < int (length (embed_user m)) \<and>
      0 \<le> ki \<and> ki < int (length (embed_item m)) \<longrightarrow>
        predict ev m u i g a =
          Inr \<lparr> data = [dot (embed_user m ! nat ku) (embed_item m ! nat ki)
                         + (u_bias m ! nat ku + i_bias m ! nat ki + bias' m)],
                dev = CPU, requires_grad = grad_enabled ev \<rparr> \<and>
        embed_gender m = None \<and> g_bias m = None \<and> embed_age m = None \<and> a_bias m = None)"
proof (intro conjI impI)
  show "predict ev m u i g a = predict ev m u i g' a'"
    using assms by (simp add: predict_def)
  show "predict ev (m\<lparr>embed_gender := EG, g_bias := GB, embed_age := EA, a_bias := AB\<rparr>) u i g a =
       predict ev m u i g a"
    using assms by (simp add: predict_def forward_def)
next
  assume h: "wf_model F m \<and> dev u = device m \<and> dev i = device m \<and>
      data u = [ku] \<and> data i = [ki] \<and>
      0 \<le> ku \<and> ku < int (length (embed_user m)) \<and>
      0 \<le> ki \<and> ki < int (length (embed_item m))"
  then have lb: "length (u_bias m) = length (embed_user m)"
      "length (i_bias m) = length (embed_item m)"
    and none: "embed_gender m = None" "g_bias m = None" "embed_age m = None" "a_bias m = None"
    using assms by (simp_all add: wf_model_def wf_table_def wf_side_def)
  from h lb have
    "forward ev m u i None None =
       Inr \<lparr> data = [dot (embed_user m ! nat ku) (embed_item m ! nat ki)
                      + (u_bias m ! nat ku + i_bias m ! nat ki + bias' m)],
             dev = device m, requires_grad = grad_enabled ev \<rparr>"
    by (intro forward_none assms) simp_all
  then show "predict ev m u i g a =
          Inr \<lparr> data = [dot (embed_user m ! nat ku) (embed_item m ! nat ki)
                         + (u_bias m ! nat ku + i_bias m ! nat ki + bias' m)],
                dev = CPU, requires_grad = grad_enabled ev \<rparr>"
    using assms by (simp add: predict_def cpu_def)
  from none show "embed_gender m = None" "g_bias m = None" "embed_age m = None"
    "a_bias m = None" by simp_all
qed

theorem predict_without_side_features_witness:
  "feature fm_plain \<noteq> 0 \<and> feature fm_plain \<noteq> 1 \<and> feature fm_plain \<noteq> 2 \<and>
   wf_model 1 fm_plain \<and>
   predict env_gpu fm_plain (tns CPU [0]) (tns CPU [0]) (Some (tns GPU [7])) None =
     predict env_gpu fm_plain (tns CPU [0]) (tns CPU [0]) None (Some (tns CPU [-1])) \<and>
   predict env_gpu fm_plain (tns CPU [0]) (tns CPU [0]) (Some (tns GPU [7])) None =
     Inr \<lparr> data = [0], dev = CPU, requires_grad = True \<rparr>"
proof -
  have a: "feature fm_plain \<noteq> 0" "feature fm_plain \<noteq> 1" "feature fm_plain \<noteq> 2"
    by (simp_all add: fm_plain_simps)
  show ?thesis
    using predict_without_side_features[OF a, of env_gpu "tns CPU [0]" "tns CPU [0]"
        "Some (tns GPU [7])" None None "Some (tns CPU [-1])" None None None None 1 0 0]
      a wf_fm_plain
    by (auto simp: fm_plain_simps dot_def)
qed


subsection \<open>A side feature left out\<close>

lemma forward_base_ok:
  assumes wf: "wf_model F m"
    and du: "dev u = device m" and di: "dev i = device m"
    and li: "length (data i) = length (data u)"
    and ru: "\<forall>k \<in> set (data u). 0 \<le> k \<and> k < int (length (embed_user m))"
    and ri: "\<forall>k \<in> set (data i). 0 \<le> k \<and> k < int (length (embed_item m))"
  obtains eu ei ub ib where
    "nn_Embedding (device m) (embed_user m) u = Inr eu"
    "nn_Embedding (device m) (embed_item m) i = Inr ei"
    "nn_Embedding (device m) (u_bias m) u = Inr ub"
    "nn_Embedding (device m) (i_bias m) i = Inr ib"
    "length eu = length (data u)" "length ei = length (data u)"
    "length ub = length (data u)" "length ib = length (data u)"
proof -
  from wf have lub: "length (u_bias m) = length (embed_user m)"
    and lib: "length (i_bias m) = length (embed_item m)"
    by (simp_all add: wf_model_def wf_table_def)
  have ru': "\<forall>k \<in> set (data u). 0 \<le> k \<and> k < int (length (u_bias m))"
    using ru lub by simp
  have ri': "\<forall>k \<in> set (data i). 0 \<le> k \<and> k < int (length (i_bias m))"
    using ri lib by simp
  show thesis
    by (rule that[OF nn_Embedding_ok[OF du ru] nn_Embedding_ok[OF di ri]
          nn_Embedding_ok[OF du ru'] nn_Embedding_ok[OF di ri']])
       (simp_all add: li)
qed

lemma forward_missing:
  assumes wf: "wf_model F m"
    and du: "dev u = device m" and di: "dev i = device m"
    and li: "length (data i) = length (data u)"
    and ru: "\<forall>k \<in> set (data u). 0 \<le> k \<and> k < int (length (embed_user m))"
    and ri: "\<forall>k \<in> set (data i). 0 \<le> k \<and> k < int (length (embed_item m))"
  shows "feature m = 0 \<or> feature m = 2 \<Longrightarrow> forward ev m u i None a = Inl TypeError"
    and "feature m = 1 \<Longrightarrow> forward ev m u i g None = Inl TypeError"
    and "feature m = 2 \<Longrightarrow> dev gg = device m \<Longrightarrow> \<forall>k \<in> set (data gg). 0 \<le> k \<and> k < 2 \<Longrightarrow>
           forward ev m u i (Some gg) None = Inl TypeError"
proof -
  from forward_base_ok[OF assms] obtain eu ei ub ib where
    b: "nn_Embedding (device m) (embed_user m) u = Inr eu"
       "nn_Embedding (device m) (embed_item m) i = Inr ei"
       "nn_Embedding (device m) (u_bias m) u = Inr ub"
       "nn_Embedding (device m) (i_bias m) i = Inr ib"
    and l: "length eu = length (data u)" "length ei = length (data u)"
       "length ub = length (data u)" "length ib = length (data u)"
    by blast
  have pre: "mul_sum eu ei = Inr (map2 dot eu ei)" "bcast2 (+) ub ib = Inr (map2 (+) ub ib)"
    "iadd (map2 dot eu ei) (map (\<lambda>x. x + bias' m) (map2 (+) ub ib)) =
       Inr (map2 (+) (map2 dot eu ei) (map (\<lambda>x. x + bias' m) (map2 (+) ub ib)))"
    by (simp_all add: mul_sum_def bcast2_same iadd_same l)
  {
    assume f: "feature m = 0 \<or> feature m = 2"
    with wf obtain G where "embed_gender m = Some G"
      by (auto simp: wf_model_def wf_side_def split: option.splits)
    with f show "forward ev m u i None a = Inl TypeError"
      by (auto simp: forward_def b pre iadd_same l attr_def nn_Embedding_opt_def)
  }
  {
    assume f: "feature m = 1"
    with wf obtain A where "embed_age m = Some A"
      by (auto simp: wf_model_def wf_side_def split: option.splits)
    with f show "forward ev m u i g None = Inl TypeError"
      by (auto simp: forward_def b pre iadd_same l attr_def nn_Embedding_opt_def)
  }
  {
    assume f: "feature m = 2" and dg: "dev gg = device m"
      and rg: "\<forall>k \<in> set (data gg). 0 \<le> k \<and> k < 2"
    with wf obtain G A where G: "embed_gender m = Some G" "length G = 2"
      and A: "embed_age m = Some A"
      by (auto simp: wf_model_def wf_side_def wf_table_def split: option.splits)
    from rg G have "\<forall>k \<in> set (data gg). 0 \<le> k \<and> k < int (length G)" by simp
    from nn_Embedding_ok[OF dg this] f G A
    show "forward ev m u i (Some gg) None = Inl TypeError"
      by (simp add: forward_def b pre iadd_same l attr_def nn_Embedding_opt_def)
  }
qed

lemma forward_None_fails:
  "feature m = 0 \<or> feature m = 2 \<Longrightarrow> forward ev m u i None a \<noteq> Inr t"
  "feature m = 1 \<or> feature m = 2 \<Longrightarrow> forward ev m u i g None \<noteq> Inr t"
  by (auto simp: forward_def nn_Embedding_opt_def elim!: ebind_InrE)

text \<open>
  Claim C10. In the modes 0, 1 and 2 a call of \<^verbatim>\<open>forward\<close> or \<^verbatim>\<open>predict\<close> that
  leaves out a side feature of the mode never returns scores. On an object as the
  constructor builds it, with user and item batches of one length inside their tables
  and on its device, the call fails in the lookup of the side-feature table, which is
  handed \<^verbatim>\<open>None\<close> (a TypeError): gender in mode 0, age in mode 1, either of them in
  mode 2. The defaults \<^verbatim>\<open>None\<close> for both work only when the mode has no side
  feature.
\<close>

theorem missing_side_feature_fails:
  "(feature m = 0 \<or> feature m = 2 \<longrightarrow>
      forward ev m u i None a \<noteq> Inr t \<and> predict ev m u i None a \<noteq> Inr t) \<and>
   (feature m = 1 \<or> feature m = 2 \<longrightarrow>
      forward ev m u i g None \<noteq> Inr t \<and> predict ev m u i g None \<noteq> Inr t) \<and>
   (predict ev m u i None None = Inr t \<longrightarrow>
      feature m \<noteq> 0 \<and> feature m \<noteq> 1 \<and> feature m \<noteq> 2) \<and>
   (wf_model F m \<and> dev u = device m \<and> dev i = device m \<and>
    length (data i) = length (data u) \<and>
    (\<forall>k \<in> set (data u). 0 \<le> k \<and> k < int (length (embed_user m))) \<and>
    (\<forall>k \<in> set (data i). 0 \<le> k \<and> k < int (length (embed_item m))) \<longrightarrow>
      (feature m = 0 \<or> feature m = 2 \<longrightarrow>
         forward ev m u i None a = Inl TypeError \<and> predict ev m u i None a = Inl TypeError) \<and>
      (feature m = 1 \<longrightarrow>
         forward ev m u i g None = Inl TypeError \<and> predict ev m u i g None = Inl TypeError) \<and>
      (feature m = 2 \<and> dev gg = device m \<and> (\<forall>k \<in> set (data gg). 0 \<le> k \<and> k < 2) \<longrightarrow>
         forward ev m u i (Some gg) None = Inl TypeError \<and>
         predict ev m u i (Some gg) None = Inl TypeError))"
proof (intro conjI impI)
  assume f: "feature m = 0 \<or> feature m = 2"
  then show "forward ev m u i None a \<noteq> Inr t" by (rule forward_None_fails)
  from f forward_None_fails(1)[of m ev u i]
  show "predict ev m u i None a \<noteq> Inr t"
    by (auto simp: predict_def elim!: ebind_InrE)
next
  assume f: "feature m = 1 \<or> feature m = 2"
  then show "forward ev m u i g None \<noteq> Inr t" by (rule forward_None_fails)
  from f forward_None_fails(2)[of m ev u i]
  show "predict ev m u i g None \<noteq> Inr t"
    by (auto simp: predict_def elim!: ebind_InrE)
next
  assume p: "predict ev m u i None None = Inr t"
  with forward_None_fails[of m ev u i]
  show "feature m \<noteq> 0" "feature m \<noteq> 1" "feature m \<noteq> 2"
    by (auto simp: predict_def elim!: ebind_InrE)
next
  assume h: "wf_model F m \<and> dev u = device m \<and> dev i = device m \<and>
    length (data i) = length (data u) \<and>
    (\<forall>k \<in> set (data u). 0 \<le> k \<and> k < int (length (embed_user m))) \<and>
    (\<forall>k \<in> set (data i). 0 \<le> k \<and> k < int (length (embed_item m)))"
  then have a: "wf_model F m" "dev u = device m" "dev i = device m"
    "length (data i) = length (data u)"
    "\<forall>k \<in> set (data u). 0 \<le> k \<and> k < int (length (embed_user m))"
    "\<forall>k \<in> set (data i). 0 \<le> k \<and> k < int (length (embed_item m))"
    by simp_all
  note fm = forward_missing[OF a]
  {
    assume f: "feature m = 0 \<or> feature m = 2"
    from fm(1)[OF f] show "forward ev m u i None a = Inl TypeError" .
    from f fm(1)[OF f, of ev None] fm(1)[OF f, of ev a]
    show "predict ev m u i None a = Inl TypeError"
      by (auto simp: predict_def)
  }
  {
    assume f: "feature m = 1"
    from fm(2)[OF f] show "forward ev m u i g None = Inl TypeError" .
    from f fm(2)[OF f, of ev None]
    show "predict ev m u i g None = Inl TypeError"
      by (auto simp: predict_def)
  }
  {
    assume f: "feature m = 2 \<and> dev gg = device m \<and> (\<forall>k \<in> set (data gg). 0 \<le> k \<and> k < 2)"
    then have g: "forward ev m u i (Some gg) None = Inl TypeError"
      using fm(3) by blast
    then show "forward ev m u i (Some gg) None = Inl TypeError" .
    from f g show "predict ev m u i (Some gg) None = Inl TypeError"
      by (simp add: predict_def)
  }
qed


theorem missing_side_feature_fails_witness:
  "feature fm_gender = 0 \<and> wf_model 1 fm_gender \<and>
   predict env_gpu fm_gender (tns CPU [0]) (tns CPU [0]) None None = Inl TypeError \<and>
   feature fm_age = 1 \<and> wf_model 1 fm_age \<and>
   predict env_gpu fm_age (tns CPU [0]) (tns CPU [0]) None None = Inl TypeError \<and>
   feature fm_both = 2 \<and> wf_model 1 fm_both \<and>
   predict env_gpu fm_both (tns CPU [0]) (tns CPU [0]) None (Some (tns CPU [2])) =
     Inl TypeError \<and>
   predict env_gpu fm_both (tns CPU [0]) (tns CPU [0]) (Some (tns CPU [1])) None =
     Inl TypeError \<and>
   predict env_gpu fm_plain (tns CPU [0]) (tns CPU [0]) None None =
     Inr \<lparr> data = [0], dev = CPU, requires_grad = True \<rparr> \<and>
   feature fm_plain \<noteq> 0 \<and> feature fm_plain \<noteq> 1 \<and> feature fm_plain \<noteq> 2"
proof -
  have p: "predict env_gpu fm_plain (tns CPU [0]) (tns CPU [0]) None None =
     Inr \<lparr> data = [0], dev = CPU, requires_grad = True \<rparr>"
    by (simp add: predict_def cpu_def fm_plain_simps forward_none[where ku=0 and ki=0] dot_def)
  show ?thesis
    using
      missing_side_feature_fails[where m=fm_gender and F=1 and ev=env_gpu
        and u="tns CPU [0]" and i="tns CPU [0]" and a=None]
      missing_side_feature_fails[where m=fm_age and F=1 and ev=env_gpu
        and u="tns CPU [0]" and i="tns CPU [0]" and g=None]
      missing_side_feature_fails[where m=fm_both and F=1 and ev=env_gpu
        and u="tns CPU [0]" and i="tns CPU [0]" and a="Some (tns CPU [2])"
        and gg="tns CPU [1]"]
      missing_side_feature_fails[where m=fm_plain and ev=env_gpu
        and u="tns CPU [0]" and i="tns CPU [0]"
        and t="\<lparr> data = [0], dev = CPU, requires_grad = True \<rparr>"]
      wf_fm_gender wf_fm_age wf_fm_both p
    by (simp add: fm_gender_simps fm_age_simps fm_both_simps fm_plain_simps)
qed

subsection \<open>The penalties grow with their coefficients\<close>

lemma fadd_Finite_Finite: "fadd (fadd x (Finite a)) (Finite b) = fadd x (Finite (a + b))"
  by (cases x) simp_all

lemma norm1_nonneg: "0 \<le> norm1 W"
  by (auto simp: norm1_def intro!: sum_list_nonneg)

lemma norm2_nonneg: "0 \<le> norm2 W"
  by (auto simp: norm2_def intro!: sum_list_nonneg)

lemma forward_reg:
  "forward ev (m\<lparr>reg_1 := r\<rparr>) u i g a = forward ev m u i g a"
  "forward ev (m\<lparr>reg_2 := r\<rparr>) u i g a = forward ev m u i g a"
  by (simp_all add: forward_def cong: if_cong)

lemma rel_ebind:
  "(\<And>v. x = Inr v \<Longrightarrow> rel_sum (=) R (f v) (f' v)) \<Longrightarrow> rel_sum (=) R (ebind x f) (ebind x f')"
  by (cases x) simp_all

lemma scale_mono: "(r::real) \<le> r' \<Longrightarrow> 0 \<le> n \<Longrightarrow> r * n \<le> r' * n"
  by (rule mult_right_mono)

lemma batch_loss_rel:
  assumes R: "\<And>c a b. a \<le> b \<Longrightarrow> R (fadd c (Finite a)) (fadd c (Finite b))"
    and le: "r \<le> r'"
  shows "rel_sum (=) R (batch_loss ev criterion (m\<lparr>reg_1 := r\<rparr>) user item gender age label)
           (batch_loss ev criterion (m\<lparr>reg_1 := r'\<rparr>) user item gender age label)"
    and "rel_sum (=) R (batch_loss ev criterion (m\<lparr>reg_2 := r\<rparr>) user item gender age label)
           (batch_loss ev criterion (m\<lparr>reg_2 := r'\<rparr>) user item gender age label)"
  unfolding batch_loss_def using le
  by (auto simp: forward_reg Let_def fadd_Finite_Finite
      intro!: rel_ebind R add_mono scale_mono add_nonneg_nonneg norm1_nonneg norm2_nonneg)

text \<open>
  Claim C7. With the batch, the labels, the parameters and everything else fixed,
  raising \<^verbatim>\<open>reg_1\<close> or \<^verbatim>\<open>reg_2\<close> never lowers the loss of the batch: the call fails
  with the same exception under both coefficients or yields two losses of which the
  second is not smaller than the first; a finite loss stays finite and does not
  decrease, a loss that is infinite or NaN stays what it is.
\<close>

theorem loss_monotone_in_reg:
  assumes "r \<le> r'"
  shows
    "rel_sum (=) (\<lambda>l l'. \<not> flt l' l \<and>
          (case l of Finite x \<Rightarrow> (\<exists>x'. l' = Finite x' \<and> x \<le> x') | _ \<Rightarrow> l' = l))
       (batch_loss ev criterion (m\<lparr>reg_1 := r\<rparr>) user item gender age label)
       (batch_loss ev criterion (m\<lparr>reg_1 := r'\<rparr>) user item gender age label) \<and>
     rel_sum (=) (\<lambda>l l'. \<not> flt l' l \<and>
          (case l of Finite x \<Rightarrow> (\<exists>x'. l' = Finite x' \<and> x \<le> x') | _ \<Rightarrow> l' = l))
       (batch_loss ev criterion (m\<lparr>reg_2 := r\<rparr>) user item gender age label)
       (batch_loss ev criterion (m\<lparr>reg_2 := r'\<rparr>) user item gender age label)"
proof -
  have R: "\<not> flt (fadd c (Finite b)) (fadd c (Finite a)) \<and>
          (case fadd c (Finite a) of
             Finite x \<Rightarrow> (\<exists>x'. fadd c (Finite b) = Finite x' \<and> x \<le> x')
           | _ \<Rightarrow> fadd c (Finite b) = fadd c (Finite a))"
    if "a \<le> b" for c a b
    using that by (cases c) simp_all
  show ?thesis
    using batch_loss_rel[where R="\<lambda>l l'. \<not> flt l' l \<and>
          (case l of Finite x \<Rightarrow> (\<exists>x'. l' = Finite x' \<and> x \<le> x') | _ \<Rightarrow> l' = l)",
          OF R assms]
    by simp
qed

theorem loss_monotone_in_reg_witness:
  "(1::real) \<le> 2 \<and>
   batch_loss env_gpu MSELoss_sum (fm_plain\<lparr>device := GPU, reg_1 := 1\<rparr>)
       (tns GPU [0]) (tns GPU [0]) None None (tns GPU [Finite 0]) = Inr (Finite (1001 / 1000)) \<and>
   batch_loss env_gpu MSELoss_sum (fm_plain\<lparr>device := GPU, reg_1 := 2\<rparr>)
       (tns GPU [0]) (tns GPU [0]) None None (tns GPU [Finite 0]) = Inr (Finite (2001 / 1000)) \<and>
   batch_loss env_gpu MSELoss_sum (fm_plain\<lparr>device := GPU, reg_2 := 1\<rparr>)
       (tns GPU [0]) (tns GPU [0]) None None (tns GPU [Finite 0]) = Inr (Finite (1001 / 1000)) \<and>
   batch_loss env_gpu MSELoss_sum (fm_plain\<lparr>device := GPU, reg_2 := 2\<rparr>)
       (tns GPU [0]) (tns GPU [0]) None None (tns GPU [Finite 0]) = Inr (Finite (2001 / 1000)) \<and>
   \<not> flt (Finite (2001 / 1000)) (Finite (1001 / 1000))"
  using loss_monotone_in_reg[of 1 2 env_gpu MSELoss_sum "fm_plain\<lparr>device := GPU\<rparr>"
      "tns GPU [0]" "tns GPU [0]" None None "tns GPU [Finite 0]"]
  by (simp add: batch_loss_plain fm_plain_simps fsub_def)

end
